theory Spec2Isabelle
  imports Complex_Main
begin

section \<open>Numbers and the ambient random source\<close>

text \<open>
  The program computes with JavaScript numbers. They are modelled by the reals, so
  rounding of doubles is outside the model. Grid coordinates, the population limit and
  the population pressure only ever hold whole numbers and are modelled by \<open>int\<close>;
  \<open>Math.floor\<close> is the floor of the reals.

  \<open>Math.random()\<close> is the only source of randomness. It is modelled by the stream
  of the values it is going to return: a function consuming a draw reads the head of the
  stream and hands the tail on. A statement "with probability p" of the specification
  is the event \<open>draw < p\<close> for that draw.
\<close>

type_synonym rng = "nat \<Rightarrow> real"

definition rng_tail :: "rng \<Rightarrow> rng" where
  "rng_tail r = (\<lambda>n. r (Suc n))"

definition unit_draws :: "rng \<Rightarrow> bool" where
  "unit_draws r \<longleftrightarrow> (\<forall>n. 0 \<le> r n \<and> r n < 1)"

section \<open>JavaScript \<open>Map\<close> and \<open>Set\<close>, in insertion order\<close>

text \<open>
  A \<open>Map\<close> iterates in insertion order, and \<open>set\<close> on a key that is present
  replaces the value in place. It is modelled by an association list with at most one
  entry for each key.
\<close>

fun map_set :: "'k \<Rightarrow> 'v \<Rightarrow> ('k \<times> 'v) list \<Rightarrow> ('k \<times> 'v) list" where
  "map_set k v [] = [(k, v)]"
| "map_set k v ((k', v') # kvs) =
     (if k' = k then (k, v) # kvs else (k', v') # map_set k v kvs)"

definition map_delete :: "'k \<Rightarrow> ('k \<times> 'v) list \<Rightarrow> ('k \<times> 'v) list" where
  "map_delete k kvs = filter (\<lambda>kv. fst kv \<noteq> k) kvs"

definition map_keys :: "('k \<times> 'v) list \<Rightarrow> 'k list" where
  "map_keys kvs = map fst kvs"

definition map_values :: "('k \<times> 'v) list \<Rightarrow> 'v list" where
  "map_values kvs = map snd kvs"

text \<open>\<open>new Set(xs)\<close>: the elements of \<open>xs\<close>, each at its first occurrence.\<close>

definition set_add :: "'a \<Rightarrow> 'a list \<Rightarrow> 'a list" where
  "set_add x s = (if x \<in> set s then s else s @ [x])"

definition new_Set :: "'a list \<Rightarrow> 'a list" where
  "new_Set xs = foldl (\<lambda>s x. set_add x s) [] xs"

section \<open>dna.ts\<close>

record Gene =
  name :: string
  gvalue :: real
  mutationRate :: real

record GeneDefinition =
  def_name :: string
  defaultValue :: real
  defaultMutationRate :: real
  description :: string
  minValue :: "real option"
  maxValue :: "real option"

text \<open>The private field \<open>genes: Map<string, Gene>\<close> of class \<open>DNA\<close>.\<close>

type_synonym DNA = "(string \<times> Gene) list"

definition addGene :: "Gene \<Rightarrow> DNA \<Rightarrow> DNA" where
  "addGene gene genes = map_set (name gene) gene genes"

definition getGene :: "string \<Rightarrow> DNA \<Rightarrow> Gene option" where
  "getGene nm genes = map_of genes nm"

definition getAllGenes :: "DNA \<Rightarrow> Gene list" where
  "getAllGenes genes = map_values genes"

text \<open>
  Every entry that the class stores is keyed by the name of its gene, and a \<open>Map\<close>
  holds a key once: the representation invariant of a \<open>DNA\<close> object.
\<close>

definition dna_ok :: "DNA \<Rightarrow> bool" where
  "dna_ok genes \<longleftrightarrow> distinct (map fst genes) \<and> list_all (\<lambda>kv. name (snd kv) = fst kv) genes"

text \<open>The bounds of the data model on the values of the genes of a genome.\<close>

definition values_in_unit :: "DNA \<Rightarrow> bool" where
  "values_in_unit genes \<longleftrightarrow> list_all (\<lambda>kv. 0 \<le> gvalue (snd kv) \<and> gvalue (snd kv) \<le> 1) genes"

subsection \<open>\<open>DNA.mutate\<close>\<close>

text \<open>
  The body of the \<open>forEach\<close> callback of \<open>mutate\<close>: the gene that is handed to
  \<open>newDNA.addGene\<close>, and the random stream after the one or two draws.
\<close>

definition mutate_gene :: "string \<Rightarrow> Gene \<Rightarrow> rng \<Rightarrow> Gene \<times> rng" where
  "mutate_gene nm gene r =
     (let shouldMutate = (r 0 < mutationRate gene) in
      if shouldMutate then
        (let mutationAmount = (r 1 * 2 - 1) * 0.1;
             newValue = max 0 (min 1 (gvalue gene + mutationAmount))
         in (\<lparr>name = nm, gvalue = newValue, mutationRate = mutationRate gene\<rparr>,
             rng_tail (rng_tail r)))
      else (gene, rng_tail r))"

fun mutate_loop :: "(string \<times> Gene) list \<Rightarrow> DNA \<Rightarrow> rng \<Rightarrow> DNA \<times> rng" where
  "mutate_loop [] newDNA r = (newDNA, r)"
| "mutate_loop ((nm, gene) # rest) newDNA r =
     (case mutate_gene nm gene r of
        (g, r') \<Rightarrow> mutate_loop rest (addGene g newDNA) r')"

definition mutate :: "DNA \<Rightarrow> rng \<Rightarrow> DNA \<times> rng" where
  "mutate genes r = mutate_loop genes [] r"

text \<open>
  The specification's description of \<open>mutate\<close>, gene by gene: with a draw below the
  gene's mutation rate the value is replaced by \<open>clamp01 (value + uniform(-0.1, 0.1))\<close>,
  otherwise the gene is copied.
\<close>

definition clamp01 :: "real \<Rightarrow> real" where
  "clamp01 v = (if v < 0 then 0 else if 1 < v then 1 else v)"

definition uniform_pm :: "real \<Rightarrow> real" where
  "uniform_pm u = (2 * u - 1) / 10"

fun mutate_spec :: "DNA \<Rightarrow> rng \<Rightarrow> DNA" where
  "mutate_spec [] r = []"
| "mutate_spec ((nm, g) # rest) r =
     (if r 0 < mutationRate g
      then (nm, g\<lparr>gvalue := clamp01 (gvalue g + uniform_pm (r 1))\<rparr>)
             # mutate_spec rest (rng_tail (rng_tail r))
      else (nm, g) # mutate_spec rest (rng_tail r))"

subsection \<open>\<open>DNA.combine\<close>\<close>

definition allGeneNames :: "DNA \<Rightarrow> DNA \<Rightarrow> string list" where
  "allGeneNames dna1 dna2 = new_Set (map_keys dna1 @ map_keys dna2)"

text \<open>The body of the \<open>forEach\<close> callback of \<open>combine\<close> for one gene name.\<close>

definition combine_name :: "DNA \<Rightarrow> DNA \<Rightarrow> string \<Rightarrow> DNA \<Rightarrow> rng \<Rightarrow> DNA \<times> rng" where
  "combine_name dna1 dna2 nm combinedDNA r =
     (case (getGene nm dna1, getGene nm dna2) of
        (Some gene1, Some gene2) \<Rightarrow>
          (let inheritanceType = r 0 in
           if inheritanceType < 0.4 then (addGene gene1 combinedDNA, rng_tail r)
           else if inheritanceType < 0.8 then (addGene gene2 combinedDNA, rng_tail r)
           else (addGene \<lparr>name = nm,
                          gvalue = (gvalue gene1 + gvalue gene2) / 2,
                          mutationRate = (mutationRate gene1 + mutationRate gene2) / 2\<rparr>
                   combinedDNA,
                 rng_tail r))
      | (Some gene1, None) \<Rightarrow> (addGene gene1 combinedDNA, r)
      | (None, Some gene2) \<Rightarrow> (addGene gene2 combinedDNA, r)
      | (None, None) \<Rightarrow> (combinedDNA, r))"

fun combine_loop :: "DNA \<Rightarrow> DNA \<Rightarrow> string list \<Rightarrow> DNA \<Rightarrow> rng \<Rightarrow> DNA \<times> rng" where
  "combine_loop dna1 dna2 [] combinedDNA r = (combinedDNA, r)"
| "combine_loop dna1 dna2 (nm # rest) combinedDNA r =
     (case combine_name dna1 dna2 nm combinedDNA r of
        (c, r') \<Rightarrow> combine_loop dna1 dna2 rest c r')"

definition combine :: "DNA \<Rightarrow> DNA \<Rightarrow> rng \<Rightarrow> DNA \<times> rng" where
  "combine dna1 dna2 r = combine_loop dna1 dna2 (allGeneNames dna1 dna2) [] r"

text \<open>
  The position, among the draws of one \<open>combine\<close>, of the draw that decides gene
  \<open>nm\<close>: the number of genes of the first parent before \<open>nm\<close> that the second
  parent has as well.
\<close>

definition draw_index :: "DNA \<Rightarrow> DNA \<Rightarrow> string \<Rightarrow> nat" where
  "draw_index dna1 dna2 nm =
     length (filter (\<lambda>k. getGene k dna2 \<noteq> None) (takeWhile (\<lambda>k. k \<noteq> nm) (map_keys dna1)))"

subsection \<open>\<open>DNA.STANDARD_GENES\<close> and \<open>DNA.createStandard\<close>\<close>

definition STANDARD_GENES :: "GeneDefinition list" where
  "STANDARD_GENES =
    [\<lparr>def_name = ''size'', defaultValue = 0.5, defaultMutationRate = 0.05,
      description = ''Physical size of the animal'',
      minValue = Some 0.1, maxValue = Some 1.0\<rparr>,
     \<lparr>def_name = ''speed'', defaultValue = 0.5, defaultMutationRate = 0.1,
      description = ''Movement speed and agility'',
      minValue = Some 0.1, maxValue = Some 1.0\<rparr>,
     \<lparr>def_name = ''metabolism'', defaultValue = 0.5, defaultMutationRate = 0.05,
      description = ''Rate of energy consumption'',
      minValue = Some 0.1, maxValue = Some 1.0\<rparr>,
     \<lparr>def_name = ''vision'', defaultValue = 0.5, defaultMutationRate = 0.08,
      description = ''Ability to detect food and threats at a distance'',
      minValue = Some 0.1, maxValue = Some 1.0\<rparr>,
     \<lparr>def_name = ''intelligence'', defaultValue = 0.3, defaultMutationRate = 0.03,
      description = ''Problem-solving and decision-making ability'',
      minValue = Some 0.1, maxValue = Some 1.0\<rparr>,
     \<lparr>def_name = ''aggression'', defaultValue = 0.3, defaultMutationRate = 0.1,
      description = ''Tendency to fight rather than flee'',
      minValue = Some 0, maxValue = Some 1.0\<rparr>,
     \<lparr>def_name = ''socialBehavior'', defaultValue = 0.5, defaultMutationRate = 0.07,
      description = ''Tendency to group with others'',
      minValue = Some 0, maxValue = Some 1.0\<rparr>,
     \<lparr>def_name = ''furColor'', defaultValue = 0.5, defaultMutationRate = 0.15,
      description = ''Color of fur/skin'',
      minValue = Some 0, maxValue = Some 1.0\<rparr>,
     \<lparr>def_name = ''reproductiveUrge'', defaultValue = 0.5, defaultMutationRate = 0.1,
      description = ''Desire to reproduce when conditions are right'',
      minValue = Some 0.1, maxValue = Some 1.0\<rparr>,
     \<lparr>def_name = ''lifespan'', defaultValue = 0.5, defaultMutationRate = 0.05,
      description = ''Natural maximum age'',
      minValue = Some 0.2, maxValue = Some 1.0\<rparr>,
     \<lparr>def_name = ''maturityAge'', defaultValue = 0.5, defaultMutationRate = 0.05,
      description = ''Age at which the animal reaches maturity'',
      minValue = Some 0.2, maxValue = Some 0.8\<rparr>,
     \<lparr>def_name = ''friendship'', defaultValue = 0.5, defaultMutationRate = 0.1,
      description = ''Tendency to be friendly rather than aggressive'',
      minValue = Some 0, maxValue = Some 1.0\<rparr>]"

text \<open>
  \<open>customValues?: Record<string, number>\<close>: an absent argument is \<open>None\<close>, and a
  record is the map from its property names to their numbers.
\<close>

definition createStandard_gene :: "(string \<rightharpoonup> real) option \<Rightarrow> GeneDefinition \<Rightarrow> Gene" where
  "createStandard_gene customValues geneDef =
     (let v = (case customValues of
                 None \<Rightarrow> defaultValue geneDef
               | Some cv \<Rightarrow> (case cv (def_name geneDef) of
                              Some c \<Rightarrow> c
                            | None \<Rightarrow> defaultValue geneDef))
      in \<lparr>name = def_name geneDef, gvalue = v, mutationRate = defaultMutationRate geneDef\<rparr>)"

definition createStandard :: "(string \<rightharpoonup> real) option \<Rightarrow> DNA" where
  "createStandard customValues =
     foldl (\<lambda>dna geneDef. addGene (createStandard_gene customValues geneDef) dna) [] STANDARD_GENES"

section \<open>world.ts\<close>

text \<open>
  The fields \<open>x\<close> and \<open>y\<close> of a \<open>Position\<close> are called \<open>pos_x\<close> and
  \<open>pos_y\<close>, the field \<open>type\<close> of a \<open>Tile\<close> is \<open>tile_type\<close> and the field
  \<open>id\<close> of an \<open>Animal\<close> is \<open>animal_id\<close>. The logger that every class holds only
  receives text and is left out.
\<close>

record Position =
  pos_x :: int
  pos_y :: int

datatype TileType = grass | water | rock

record Tile =
  tile_type :: TileType
  foodValue :: real

record AnimalStats =
  health :: real
  energy :: real
  age :: real
  hunger :: real

text \<open>
  The classes \<open>Rabbit\<close> and \<open>Fluffles\<close> extend the abstract class \<open>Animal\<close>; the
  class of an object is the tag \<open>species\<close>. The two private fields of \<open>Fluffles\<close>
  for courtship are part of the record and stay at their initial values in a \<open>Rabbit\<close>.
\<close>

datatype Species = Rabbit | Fluffles

record Animal =
  animal_id :: string
  species :: Species
  dna :: DNA
  position :: Position
  stats :: AnimalStats
  matingPartner :: "string option"
  matingProgress :: int

text \<open>
  The registry \<open>animals: Map<string, Animal>\<close> holds the animals under their ids. An
  operation of one animal takes that animal as the argument \<open>this\<close> and returns its
  new state next to the new world.
\<close>

record World =
  width :: int
  height :: int
  grid :: "Tile list list"
  animals :: "(string \<times> Animal) list"
  maxPopulation :: int
  populationPressure :: int

text \<open>The constructor draws one random number for each tile, row by row.\<close>

definition new_tile :: "real \<Rightarrow> Tile" where
  "new_tile rand =
     (if rand < 0.7 then \<lparr>tile_type = grass, foodValue = 10\<rparr>
      else if rand < 0.9 then \<lparr>tile_type = water, foodValue = 5\<rparr>
      else \<lparr>tile_type = rock, foodValue = 0\<rparr>)"

fun new_row :: "nat \<Rightarrow> rng \<Rightarrow> Tile list \<times> rng" where
  "new_row 0 r = ([], r)"
| "new_row (Suc n) r =
     (case new_row n (rng_tail r) of (row, r') \<Rightarrow> (new_tile (r 0) # row, r'))"

fun new_grid :: "nat \<Rightarrow> nat \<Rightarrow> rng \<Rightarrow> Tile list list \<times> rng" where
  "new_grid 0 w r = ([], r)"
| "new_grid (Suc h) w r =
     (case new_row w r of (row, r') \<Rightarrow>
        (case new_grid h w r' of (rows, r'') \<Rightarrow> (row # rows, r'')))"

definition new_World :: "int \<Rightarrow> int \<Rightarrow> rng \<Rightarrow> World \<times> rng" where
  "new_World w h r =
     (case new_grid (nat h) (nat w) r of (g, r') \<Rightarrow>
        (\<lparr>width = w, height = h, grid = g, animals = [],
          maxPopulation = \<lfloor>real_of_int (w * h) * 0.3\<rfloor>,
          populationPressure = 0\<rparr>, r'))"

definition getWidth :: "World \<Rightarrow> int" where
  "getWidth w = width w"

definition getHeight :: "World \<Rightarrow> int" where
  "getHeight w = height w"

definition isPositionValid :: "World \<Rightarrow> Position \<Rightarrow> bool" where
  "isPositionValid w p \<longleftrightarrow>
     pos_x p \<ge> 0 \<and> pos_x p < width w \<and> pos_y p \<ge> 0 \<and> pos_y p < height w"

text \<open>
  The grid is built once with \<open>height\<close> rows of \<open>width\<close> tiles and never resized,
  so a valid position indexes a tile.
\<close>

definition grid_ok :: "World \<Rightarrow> bool" where
  "grid_ok w \<longleftrightarrow>
     int (length (grid w)) = height w \<and> list_all (\<lambda>row. int (length row) = width w) (grid w)"

definition getTile :: "World \<Rightarrow> Position \<Rightarrow> Tile option" where
  "getTile w p =
     (if isPositionValid w p then Some (grid w ! nat (pos_y p) ! nat (pos_x p)) else None)"

definition addAnimal :: "Animal \<Rightarrow> World \<Rightarrow> bool \<times> World" where
  "addAnimal animal w =
     (if int (length (animals w)) \<ge> maxPopulation w then
        (False,
         if populationPressure w < 5
         then w\<lparr>populationPressure := populationPressure w + 1\<rparr>
         else w)
      else
        (let w1 = w\<lparr>animals := map_set (animal_id animal) animal (animals w)\<rparr>;
             w2 = w1\<lparr>populationPressure :=
                        min 10 \<lfloor>(real (length (animals w1)) / real_of_int (maxPopulation w1)) * 10\<rfloor>\<rparr>
         in (True, w2)))"

definition removeAnimal :: "string \<Rightarrow> World \<Rightarrow> World" where
  "removeAnimal i w = w\<lparr>animals := map_delete i (animals w)\<rparr>"

definition getAnimal :: "string \<Rightarrow> World \<Rightarrow> Animal option" where
  "getAnimal i w = map_of (animals w) i"

definition getAllAnimals :: "World \<Rightarrow> Animal list" where
  "getAllAnimals w = map_values (animals w)"

definition getPopulationPressure :: "World \<Rightarrow> int" where
  "getPopulationPressure w = populationPressure w"

definition getMaxPopulation :: "World \<Rightarrow> int" where
  "getMaxPopulation w = maxPopulation w"

definition consumeFood :: "Position \<Rightarrow> real \<Rightarrow> World \<Rightarrow> real \<times> World" where
  "consumeFood p amount w =
     (case getTile w p of
        None \<Rightarrow> (0, w)
      | Some tile \<Rightarrow>
          (let consumed = min (foodValue tile) amount;
               row = grid w ! nat (pos_y p)
           in (consumed,
               w\<lparr>grid := (grid w)[nat (pos_y p) :=
                     row[nat (pos_x p) := tile\<lparr>foodValue := foodValue tile - consumed\<rparr>]]\<rparr>)))"

text \<open>
  The second half of \<open>World.update\<close>, after the \<open>forEach\<close> over the registry: the
  two nested loops visit every tile of the grid. With an empty registry the first half
  does nothing and \<open>World.update\<close> is this function.
\<close>

definition regrowthRate :: "World \<Rightarrow> real" where
  "regrowthRate w = max 0.01 (0.1 - real_of_int (populationPressure w) * 0.01)"

definition regrow_tile :: "real \<Rightarrow> Tile \<Rightarrow> Tile" where
  "regrow_tile rate tile =
     (if tile_type tile = grass \<and> foodValue tile < 10
      then tile\<lparr>foodValue := foodValue tile + rate\<rparr>
      else tile)"

definition regrow :: "World \<Rightarrow> World" where
  "regrow w = w\<lparr>grid := map (map (regrow_tile (regrowthRate w))) (grid w)\<rparr>"

section \<open>animal.ts\<close>

text \<open>
  What a method of an animal leaves behind: its return value, the animal itself, the
  world and the random stream.
\<close>

record 'a outcome =
  returned :: 'a
  this_after :: Animal
  world_after :: World
  rng_after :: rng

text \<open>
  The constructor of \<open>Animal\<close>, followed by the constructor of the subclass, which
  fills an empty genome with the standard genes of the species. The id that
  \<open>crypto.randomUUID()\<close> returns is the argument \<open>uuid\<close>.
\<close>

definition species_genes :: "Species \<Rightarrow> (string \<times> real) list" where
  "species_genes sp =
     (case sp of
        Rabbit \<Rightarrow>
          [(''size'', 0.3), (''speed'', 0.7), (''metabolism'', 0.7), (''vision'', 0.6),
           (''intelligence'', 0.4), (''aggression'', 0.2), (''socialBehavior'', 0.6),
           (''reproductiveUrge'', 0.8)]
      | Fluffles \<Rightarrow>
          [(''size'', 0.3), (''speed'', 0.7), (''metabolism'', 0.7), (''vision'', 0.6),
           (''intelligence'', 0.4), (''aggression'', 0.2), (''socialBehavior'', 0.6),
           (''reproductiveUrge'', 0.8), (''maturityAge'', 0.4)])"

definition new_Animal :: "Species \<Rightarrow> string \<Rightarrow> DNA \<Rightarrow> Position \<Rightarrow> Animal" where
  "new_Animal sp uuid d p =
     (let d' = (if length (getAllGenes d) = 0
                then foldl (\<lambda>genes gene. addGene gene genes) d
                       (getAllGenes (createStandard (Some (map_of (species_genes sp)))))
                else d)
      in \<lparr>animal_id = uuid, species = sp, dna = d', position = p,
          stats = \<lparr>health = 100, energy = 100, age = 0, hunger = 0\<rparr>,
          matingPartner = None, matingProgress = 0\<rparr>)"

definition createOffspring :: "Animal \<Rightarrow> string \<Rightarrow> DNA \<Rightarrow> Position \<Rightarrow> Animal" where
  "createOffspring this uuid d p = new_Animal (species this) uuid d p"

datatype Direction = north | east | south | west

definition move :: "Direction \<Rightarrow> World \<Rightarrow> Animal \<Rightarrow> rng \<Rightarrow> Animal \<times> rng" where
  "move direction w this r =
     (let p = position this;
          newPosition =
            (case direction of
               north \<Rightarrow> p\<lparr>pos_y := max 0 (pos_y p - 1)\<rparr>
             | east \<Rightarrow> p\<lparr>pos_x := min (getWidth w - 1) (pos_x p + 1)\<rparr>
             | south \<Rightarrow> p\<lparr>pos_y := min (getHeight w - 1) (pos_y p + 1)\<rparr>
             | west \<Rightarrow> p\<lparr>pos_x := max 0 (pos_x p - 1)\<rparr>)
      in if isPositionValid w newPosition
         then (this\<lparr>position := newPosition,
                     stats := (stats this)\<lparr>energy := energy (stats this) - 1\<rparr>\<rparr>,
               rng_tail r)
         else (this, r))"

definition eat :: "real \<Rightarrow> Animal \<Rightarrow> rng \<Rightarrow> Animal \<times> rng" where
  "eat food this r =
     (let st = stats this;
          st1 = st\<lparr>hunger := max 0 (hunger st - food)\<rparr>;
          st2 = st1\<lparr>energy := min 100 (energy st1 + food / 2)\<rparr>
      in (this\<lparr>stats := st2\<rparr>, rng_tail r))"

definition die :: "Animal \<Rightarrow> World \<Rightarrow> World" where
  "die this w = removeAnimal (animal_id this) w"

definition isAdult :: "Animal \<Rightarrow> bool" where
  "isAdult this =
     (let baseMaturityAge = 25;
          maturityModifier =
            (case getGene ''maturityAge'' (dna this) of
               Some maturityGene \<Rightarrow> gvalue maturityGene * 20 - 10
             | None \<Rightarrow> 0);
          maturityAge = max 15 (baseMaturityAge + maturityModifier)
      in age (stats this) \<ge> maturityAge)"

definition reproduce_successChance :: "Animal \<Rightarrow> World \<Rightarrow> real" where
  "reproduce_successChance this w =
     (let reproductiveUrge =
            (case getGene ''reproductiveUrge'' (dna this) of
               Some reproductiveUrgeGene \<Rightarrow> gvalue reproductiveUrgeGene
             | None \<Rightarrow> 0.5)
      in max 0.1 (reproductiveUrge - real_of_int (getPopulationPressure w) * 0.08))"

definition midpoint_floor :: "Position \<Rightarrow> Position \<Rightarrow> Position" where
  "midpoint_floor p q =
     \<lparr>pos_x = \<lfloor>real_of_int (pos_x p + pos_x q) / 2\<rfloor>,
      pos_y = \<lfloor>real_of_int (pos_y p + pos_y q) / 2\<rfloor>\<rparr>"

definition reproduce :: "string \<Rightarrow> Animal \<Rightarrow> World \<Rightarrow> Animal \<Rightarrow> rng \<Rightarrow> Animal option outcome" where
  "reproduce uuid partner w this r =
     (if \<not> isAdult this \<or> \<not> isAdult partner then
        \<lparr>returned = None, this_after = this, world_after = w, rng_after = r\<rparr>
      else if energy (stats this) < 50 \<or> energy (stats partner) < 50 then
        \<lparr>returned = None, this_after = this, world_after = w, rng_after = r\<rparr>
      else if r 0 > reproduce_successChance this w then
        \<lparr>returned = None,
         this_after = this\<lparr>stats := (stats this)\<lparr>energy := energy (stats this) - 10\<rparr>\<rparr>,
         world_after = w, rng_after = rng_tail r\<rparr>
      else
        (case combine (dna this) (dna partner) (rng_tail r) of (childDNA, r1) \<Rightarrow>
         case mutate childDNA r1 of (mutatedDNA, r2) \<Rightarrow>
           (let childPosition = midpoint_floor (position this) (position partner);
                this' = this\<lparr>stats := (stats this)\<lparr>energy := energy (stats this) - 30\<rparr>\<rparr>;
                offspring = createOffspring this' uuid mutatedDNA childPosition
            in case addAnimal offspring w of (accepted, w') \<Rightarrow>
                 \<lparr>returned = (if accepted then Some offspring else None),
                  this_after = this', world_after = w', rng_after = r2\<rparr>)))"

definition applyEnvironmentalStress :: "real \<Rightarrow> Animal \<Rightarrow> rng \<Rightarrow> Animal \<times> rng" where
  "applyEnvironmentalStress pressureLevel this r =
     (if pressureLevel > 7 then
        (let st = stats this;
             st1 = st\<lparr>hunger := hunger st + 0.5\<rparr>;
             st2 = st1\<lparr>energy := energy st1 - 0.3\<rparr>
         in if r 0 < 0.05
            then (this\<lparr>stats := st2\<lparr>health := health st2 - 1\<rparr>\<rparr>, rng_tail (rng_tail r))
            else (this\<lparr>stats := st2\<rparr>, rng_tail r))
      else if pressureLevel > 5 then
        (let st = stats this;
             st1 = st\<lparr>hunger := hunger st + 0.3\<rparr>;
             st2 = st1\<lparr>energy := energy st1 - 0.1\<rparr>
         in (this\<lparr>stats := st2\<rparr>, r))
      else (this, r))"

definition attack_successChance :: "Animal \<Rightarrow> Animal \<Rightarrow> real" where
  "attack_successChance this target =
     (let aggression = (case getGene ''aggression'' (dna this) of
                          Some aggressionGene \<Rightarrow> gvalue aggressionGene | None \<Rightarrow> 0.3);
          speed = (case getGene ''speed'' (dna this) of
                     Some speedGene \<Rightarrow> gvalue speedGene | None \<Rightarrow> 0.5);
          targetSpeed = (case getGene ''speed'' (dna target) of
                           Some targetSpeedGene \<Rightarrow> gvalue targetSpeedGene | None \<Rightarrow> 0.5);
          speedAdvantage = max 0 (speed - targetSpeed)
      in 0.3 + (aggression * 0.4) + (speedAdvantage * 0.3))"

definition attack :: "Animal \<Rightarrow> World \<Rightarrow> Animal \<Rightarrow> rng \<Rightarrow> bool outcome" where
  "attack target w this r =
     (if energy (stats this) < 20 then
        \<lparr>returned = False, this_after = this, world_after = w, rng_after = r\<rparr>
      else
        (let successChance = attack_successChance this target;
             st1 = (stats this)\<lparr>energy := energy (stats this) - 15\<rparr>
         in if r 0 < successChance then
              (let energyGain = 30 + real_of_int \<lfloor>r 1 * 20\<rfloor>;
                   st2 = st1\<lparr>energy := min 100 (energy st1 + energyGain)\<rparr>;
                   st3 = st2\<lparr>hunger := max 0 (hunger st2 - 40)\<rparr>
               in \<lparr>returned = True, this_after = this\<lparr>stats := st3\<rparr>,
                   world_after = die target w, rng_after = rng_tail (rng_tail r)\<rparr>)
            else
              \<lparr>returned = False, this_after = this\<lparr>stats := st1\<rparr>,
               world_after = w, rng_after = rng_tail (rng_tail r)\<rparr>))"

section \<open>Objects, references and the accessors\<close>

text \<open>
  Whether a caller of \<open>getDNA\<close>, \<open>getPosition\<close> or \<open>getStats\<close> can reach the
  animal's own state depends on which object the accessor returns. For these the three
  objects that an animal holds live in a store, at addresses; an animal object holds the
  addresses, an object literal or a spread \<open>{...o}\<close> allocates the next free address,
  and an assignment to a field of an object writes to the store at its address.
\<close>

type_synonym addr = nat

record Store =
  dna_at :: "addr \<Rightarrow> DNA"
  position_at :: "addr \<Rightarrow> Position"
  stats_at :: "addr \<Rightarrow> AnimalStats"
  next_addr :: addr

record AnimalObj =
  obj_id :: string
  dna_ref :: addr
  position_ref :: addr
  stats_ref :: addr

text \<open>Every object that an animal holds has been allocated.\<close>

definition allocated :: "Store \<Rightarrow> AnimalObj \<Rightarrow> bool" where
  "allocated s a \<longleftrightarrow>
     dna_ref a < next_addr s \<and> position_ref a < next_addr s \<and> stats_ref a < next_addr s"

text \<open>\<open>return this.dna\<close>\<close>

definition getDNA :: "AnimalObj \<Rightarrow> Store \<Rightarrow> addr \<times> Store" where
  "getDNA this s = (dna_ref this, s)"

text \<open>\<open>return {...this.position}\<close>\<close>

definition getPosition :: "AnimalObj \<Rightarrow> Store \<Rightarrow> addr \<times> Store" where
  "getPosition this s =
     (next_addr s,
      s\<lparr>position_at := (position_at s)(next_addr s := position_at s (position_ref this)),
        next_addr := Suc (next_addr s)\<rparr>)"

text \<open>\<open>return {...this.stats}\<close>\<close>

definition getStats :: "AnimalObj \<Rightarrow> Store \<Rightarrow> addr \<times> Store" where
  "getStats this s =
     (next_addr s,
      s\<lparr>stats_at := (stats_at s)(next_addr s := stats_at s (stats_ref this)),
        next_addr := Suc (next_addr s)\<rparr>)"

text \<open>The animal's own genome, position and stats: what its fields point to.\<close>

definition live_dna :: "Store \<Rightarrow> AnimalObj \<Rightarrow> DNA" where
  "live_dna s a = dna_at s (dna_ref a)"

definition live_position :: "Store \<Rightarrow> AnimalObj \<Rightarrow> Position" where
  "live_position s a = position_at s (position_ref a)"

definition live_stats :: "Store \<Rightarrow> AnimalObj \<Rightarrow> AnimalStats" where
  "live_stats s a = stats_at s (stats_ref a)"

text \<open>
  What a caller can do with a returned object: assign to its fields, or call
  \<open>addGene\<close> on it.
\<close>

definition write_position :: "addr \<Rightarrow> (Position \<Rightarrow> Position) \<Rightarrow> Store \<Rightarrow> Store" where
  "write_position p f s = s\<lparr>position_at := (position_at s)(p := f (position_at s p))\<rparr>"

definition write_stats :: "addr \<Rightarrow> (AnimalStats \<Rightarrow> AnimalStats) \<Rightarrow> Store \<Rightarrow> Store" where
  "write_stats p f s = s\<lparr>stats_at := (stats_at s)(p := f (stats_at s p))\<rparr>"

definition call_addGene :: "addr \<Rightarrow> Gene \<Rightarrow> Store \<Rightarrow> Store" where
  "call_addGene p gene s = s\<lparr>dna_at := (dna_at s)(p := addGene gene (dna_at s p))\<rparr>"

section \<open>simulation.ts: the disease case of \<open>applyDisasterEffects\<close>\<close>

text \<open>
  \<open>case 'disease'\<close> of the switch, over the array that \<open>getAllAnimals()\<close> returned:
  one draw for each animal, and a second one, for the log line, when the first is below
  \<open>disasterIntensity * 0.15\<close>.
\<close>

definition disease_animal :: "real \<Rightarrow> AnimalObj \<Rightarrow> Store \<Rightarrow> rng \<Rightarrow> Store \<times> rng" where
  "disease_animal disasterIntensity animal s r =
     (if r 0 < disasterIntensity * 0.15 then
        (case getStats animal s of (st, s1) \<Rightarrow>
           (write_stats st
              (\<lambda>v. v\<lparr>health := health v - real_of_int \<lfloor>10 * disasterIntensity\<rfloor>\<rparr>) s1,
            rng_tail (rng_tail r)))
      else (s, rng_tail r))"

fun applyDisasterEffects_disease :: "real \<Rightarrow> AnimalObj list \<Rightarrow> Store \<Rightarrow> rng \<Rightarrow> Store \<times> rng" where
  "applyDisasterEffects_disease disasterIntensity [] s r = (s, r)"
| "applyDisasterEffects_disease disasterIntensity (animal # rest) s r =
     (case disease_animal disasterIntensity animal s r of
        (s', r') \<Rightarrow> applyDisasterEffects_disease disasterIntensity rest s' r')"

section \<open>Auxiliary definitions for the statements and proofs\<close>

text \<open>
  The gene that \<open>combine\<close> stores for a name that both parents have, from the draw
  \<open>t\<close>.
\<close>

definition inherit :: "real \<Rightarrow> string \<Rightarrow> Gene \<Rightarrow> Gene \<Rightarrow> Gene" where
  "inherit t nm gene1 gene2 =
     (if t < 0.4 then gene1
      else if t < 0.8 then gene2
      else \<lparr>name = nm, gvalue = (gvalue gene1 + gvalue gene2) / 2,
            mutationRate = (mutationRate gene1 + mutationRate gene2) / 2\<rparr>)"

text \<open>The entries that the loop of \<open>combine\<close> appends for a list of fresh names.\<close>

fun combine_direct :: "DNA \<Rightarrow> DNA \<Rightarrow> string list \<Rightarrow> rng \<Rightarrow> DNA" where
  "combine_direct a b [] r = []"
| "combine_direct a b (n # ns) r =
     (case (map_of a n, map_of b n) of
        (Some g1, Some g2) \<Rightarrow> (n, inherit (r 0) n g1 g2) # combine_direct a b ns (rng_tail r)
      | (Some g1, None) \<Rightarrow> (n, g1) # combine_direct a b ns r
      | (None, Some g2) \<Rightarrow> (n, g2) # combine_direct a b ns r
      | (None, None) \<Rightarrow> combine_direct a b ns r)"

definition common :: "DNA \<Rightarrow> DNA \<Rightarrow> string \<Rightarrow> bool" where
  "common a b k \<longleftrightarrow> map_of a k \<noteq> None \<and> map_of b k \<noteq> None"

text \<open>Genomes and draws on which the statements are tried.\<close>

definition gene :: "string \<Rightarrow> real \<Rightarrow> real \<Rightarrow> string \<times> Gene" where
  "gene nm v m = (nm, \<lparr>name = nm, gvalue = v, mutationRate = m\<rparr>)"

definition dna_A :: DNA where
  "dna_A = [gene ''size'' 0.5 0.05, gene ''speed'' 0.98 1]"

definition dna_B :: DNA where
  "dna_B = [gene ''speed'' 0.2 0.5, gene ''lifespan'' 0.6 0.05]"

definition draws_const :: "real \<Rightarrow> rng" where
  "draws_const c = (\<lambda>n. c)"

text \<open>A run of \<open>addAnimal\<close> calls, with the value each call returned.\<close>

fun addAnimals :: "Animal list \<Rightarrow> World \<Rightarrow> bool list \<times> World" where
  "addAnimals [] w = ([], w)"
| "addAnimals (a # as) w =
     (case addAnimal a w of (ok, w') \<Rightarrow>
        (case addAnimals as w' of (oks, w'') \<Rightarrow> (ok # oks, w'')))"

text \<open>A run of \<open>removeAnimal\<close> calls.\<close>

definition removeAnimals :: "string list \<Rightarrow> World \<Rightarrow> World" where
  "removeAnimals ids w = foldl (\<lambda>w' i. removeAnimal i w') w ids"

text \<open>The pressure that \<open>addAnimal\<close> would compute for the registry as it is.\<close>

definition pressure_formula :: "World \<Rightarrow> int" where
  "pressure_formula w =
     min 10 \<lfloor>(real (length (animals w)) / real_of_int (maxPopulation w)) * 10\<rfloor>"

text \<open>Animals and worlds on which the statements are tried.\<close>

definition animal_named :: "string \<Rightarrow> Animal" where
  "animal_named uuid = new_Animal Fluffles uuid dna_A \<lparr>pos_x = 0, pos_y = 0\<rparr>"

definition ids31 :: "string list" where
  "ids31 = map (\<lambda>c. [c]) ''abcdefghijklmnopqrstuvwxyzABCDE''"

definition world_2x5 :: World where
  "world_2x5 = fst (new_World 2 5 (draws_const 0))"

definition world_1x1 :: World where
  "world_1x1 = fst (new_World 1 1 (draws_const 0))"

text \<open>
  The specification's words for a move: one step in a cardinal direction (north is
  towards row 0), then the clamp of each coordinate to the grid.
\<close>

definition one_step :: "Direction \<Rightarrow> Position \<Rightarrow> Position" where
  "one_step direction p =
     (case direction of
        north \<Rightarrow> \<lparr>pos_x = pos_x p, pos_y = pos_y p - 1\<rparr>
      | east \<Rightarrow> \<lparr>pos_x = pos_x p + 1, pos_y = pos_y p\<rparr>
      | south \<Rightarrow> \<lparr>pos_x = pos_x p, pos_y = pos_y p + 1\<rparr>
      | west \<Rightarrow> \<lparr>pos_x = pos_x p - 1, pos_y = pos_y p\<rparr>)"

definition clamp_to_grid :: "World \<Rightarrow> Position \<Rightarrow> Position" where
  "clamp_to_grid w p =
     \<lparr>pos_x = max 0 (min (width w - 1) (pos_x p)),
      pos_y = max 0 (min (height w - 1) (pos_y p))\<rparr>"

text \<open>The two conditions under which \<open>reproduce\<close> goes on to its random draw.\<close>

definition eligible :: "Animal \<Rightarrow> Animal \<Rightarrow> bool" where
  "eligible this partner \<longleftrightarrow>
     isAdult this \<and> isAdult partner \<and> 50 \<le> energy (stats this) \<and> 50 \<le> energy (stats partner)"

text \<open>An adult animal with energy 50 and hunger 60, on which the statements are tried.\<close>

definition grown :: "string \<Rightarrow> int \<Rightarrow> int \<Rightarrow> Animal" where
  "grown uuid px py =
     (new_Animal Fluffles uuid dna_A \<lparr>pos_x = px, pos_y = py\<rparr>)
       \<lparr>stats := \<lparr>health = 100, energy = 50, age = 30, hunger = 60\<rparr>\<rparr>"

text \<open>An adult animal at the origin whose energy is used up.\<close>

definition exhausted :: Animal where
  "exhausted = (grown ''a'' 0 0)\<lparr>stats := \<lparr>health = 100, energy = 0, age = 30, hunger = 60\<rparr>\<rparr>"

text \<open>The 1 by 1 world, a single grass tile, after 0.05 of its food was consumed.\<close>

definition world_grazed :: World where
  "world_grazed = snd (consumeFood \<lparr>pos_x = 0, pos_y = 0\<rparr> 0.05 world_1x1)"

text \<open>
  A store with one animal: its genome at address 0, its position at address 1, its
  stats at address 2, and address 3 the next free one.
\<close>

definition store_one :: Store where
  "store_one =
     \<lparr>dna_at = (\<lambda>p. if p = 0 then dna_A else []),
      position_at = (\<lambda>p. \<lparr>pos_x = 0, pos_y = 0\<rparr>),
      stats_at = (\<lambda>p. \<lparr>health = 100, energy = 100, age = 0, hunger = 0\<rparr>),
      next_addr = 3\<rparr>"

definition animal_one :: AnimalObj where
  "animal_one = \<lparr>obj_id = ''a'', dna_ref = 0, position_ref = 1, stats_ref = 2\<rparr>"

text \<open>
  The energy of a successful attacker in the words of the specification: 15 are
  deducted, then \<open>30 + uniform(0, 20)\<close> is gained, capped at 100, where
  \<open>uniform(0, 20)\<close> is 20 times the draw \<open>u\<close>.
\<close>

definition energy_after_kill_spec :: "real \<Rightarrow> real \<Rightarrow> real" where
  "energy_after_kill_spec e u = min 100 ((e - 15) + (30 + 20 * u))"

text \<open>An adult attacker with energy 20, and a stream whose first draw is \<open>a\<close> and
  whose later draws are \<open>b\<close>.\<close>

definition weak_attacker :: Animal where
  "weak_attacker = (grown ''a'' 0 0)\<lparr>stats := \<lparr>health = 100, energy = 20, age = 30, hunger = 60\<rparr>\<rparr>"

definition draws_then :: "real \<Rightarrow> real \<Rightarrow> rng" where
  "draws_then a b = (\<lambda>n. if n = 0 then a else b)"

section \<open>Properties: the genome\<close>

subsection \<open>Maps and sets\<close>

lemma map_set_fresh: "k \<notin> fst ` set kvs \<Longrightarrow> map_set k v kvs = kvs @ [(k, v)]"
  by (induction kvs) auto

lemma map_set_map_fst:
  "map fst (map_set k v kvs) = (if k \<in> fst ` set kvs then map fst kvs else map fst kvs @ [k])"
proof (induction kvs)
  case Nil
  then show ?case by simp
next
  case (Cons kv kvs)
  obtain k' v' where kv: "kv = (k', v')" by (cases kv)
  show ?case
  proof (cases "k' = k")
    case True
    then show ?thesis by (simp add: kv)
  next
    case False
    then show ?thesis using Cons.IH by (simp add: kv)
  qed
qed

lemma map_set_keys: "fst ` set (map_set k v kvs) = insert k (fst ` set kvs)"
  using arg_cong [OF map_set_map_fst [of k v kvs], of set] by (auto split: if_splits)

lemma map_set_distinct: "distinct (map fst kvs) \<Longrightarrow> distinct (map fst (map_set k v kvs))"
  by (simp add: map_set_map_fst)

lemma map_set_length:
  "length (map_set k v kvs) = (if k \<in> fst ` set kvs then length kvs else Suc (length kvs))"
  using arg_cong [OF map_set_map_fst [of k v kvs], of length] by (simp split: if_splits)

lemma map_of_map_set: "map_of (map_set k v kvs) = (map_of kvs)(k \<mapsto> v)"
  by (induction kvs) auto

lemma map_of_map_delete: "map_of (map_delete k kvs) k = None"
  by (induction kvs) (auto simp: map_delete_def)

lemma set_add_foldl_distinct:
  "distinct xs \<Longrightarrow> foldl (\<lambda>s x. set_add x s) acc xs = acc @ filter (\<lambda>x. x \<notin> set acc) xs"
proof (induction xs arbitrary: acc)
  case Nil
  then show ?case by simp
next
  case (Cons x xs)
  then have x: "x \<notin> set xs" and d: "distinct xs" by auto
  show ?case
  proof (cases "x \<in> set acc")
    case True
    then show ?thesis using Cons.IH [OF d, of acc] by (simp add: set_add_def)
  next
    case False
    have "filter (\<lambda>y. y \<notin> set (acc @ [x])) xs = filter (\<lambda>y. y \<notin> set acc) xs"
      using x by (intro filter_cong) auto
    then show ?thesis using False Cons.IH [OF d, of "acc @ [x]"] by (simp add: set_add_def)
  qed
qed

subsection \<open>\<open>mutate\<close>\<close>

lemma clamp01_max_min: "max 0 (min 1 (v + (u * 2 - 1) * 0.1)) = clamp01 (v + uniform_pm u)"
proof -
  have "(u * 2 - 1) * 0.1 = uniform_pm u" by (simp add: uniform_pm_def algebra_simps)
  then show ?thesis by (simp add: clamp01_def max_def min_def)
qed

lemma mutate_gene_spec:
  "name g = nm \<Longrightarrow>
   mutate_gene nm g r =
     (if r 0 < mutationRate g
      then (g\<lparr>gvalue := clamp01 (gvalue g + uniform_pm (r 1))\<rparr>, rng_tail (rng_tail r))
      else (g, rng_tail r))"
  unfolding mutate_gene_def Let_def clamp01_max_min by (cases g) simp

lemma mutate_gene_name: "name g = nm \<Longrightarrow> name (fst (mutate_gene nm g r)) = nm"
  by (simp add: mutate_gene_spec)

lemma mutate_loop_spec:
  "distinct (map fst acc @ map fst rest) \<Longrightarrow> list_all (\<lambda>kv. name (snd kv) = fst kv) rest \<Longrightarrow>
   fst (mutate_loop rest acc r) = acc @ mutate_spec rest r"
proof (induction rest arbitrary: acc r)
  case Nil
  then show ?case by simp
next
  case (Cons kv rest)
  obtain nm g where kv: "kv = (nm, g)" by (cases kv)
  from Cons.prems kv have nm: "name g = nm" and fresh: "nm \<notin> fst ` set acc"
    and rest_ok: "list_all (\<lambda>kv. name (snd kv) = fst kv) rest" by auto
  obtain g' r' where step: "mutate_gene nm g r = (g', r')" by (cases "mutate_gene nm g r")
  have g'name: "name g' = nm" using mutate_gene_name [OF nm, of r] step by simp
  have acc': "addGene g' acc = acc @ [(nm, g')]"
    using fresh g'name by (simp add: addGene_def map_set_fresh)
  have dist: "distinct (map fst (acc @ [(nm, g')]) @ map fst rest)"
    using Cons.prems(1) kv by auto
  have "fst (mutate_loop (kv # rest) acc r) = fst (mutate_loop rest (acc @ [(nm, g')]) r')"
    by (simp add: kv step acc')
  also have "\<dots> = (acc @ [(nm, g')]) @ mutate_spec rest r'"
    by (rule Cons.IH [OF dist rest_ok])
  also have "\<dots> = acc @ mutate_spec (kv # rest) r"
    using step nm by (auto simp: kv mutate_gene_spec split: if_splits)
  finally show ?case .
qed

lemma mutate_refines: "dna_ok genes \<Longrightarrow> fst (mutate genes r) = mutate_spec genes r"
  using mutate_loop_spec [of "[]" genes r] by (simp add: mutate_def dna_ok_def)

lemma mutate_spec_keys: "map fst (mutate_spec genes r) = map fst genes"
  by (induction genes r rule: mutate_spec.induct) auto

lemma mutate_spec_names:
  "list_all (\<lambda>kv. name (snd kv) = fst kv) genes \<Longrightarrow>
   list_all (\<lambda>kv. name (snd kv) = fst kv) (mutate_spec genes r)"
  by (induction genes r rule: mutate_spec.induct) auto

lemma clamp01_unit: "0 \<le> clamp01 v \<and> clamp01 v \<le> 1"
  by (simp add: clamp01_def)

lemma mutate_spec_values:
  "values_in_unit genes \<Longrightarrow> values_in_unit (mutate_spec genes r)"
  by (induction genes r rule: mutate_spec.induct) (auto simp: values_in_unit_def clamp01_unit)

lemma uniform_pm_range: "0 \<le> u \<Longrightarrow> u < 1 \<Longrightarrow> - 0.1 \<le> uniform_pm u \<and> uniform_pm u < 0.1"
  by (simp add: uniform_pm_def)

text \<open>
  C4. On a genome (an object of class \<open>DNA\<close>, so with its representation invariant),
  \<open>mutate\<close> computes what the specification describes gene by gene: a gene whose draw
  is below its mutation rate gets the value \<open>clamp01 (value + d)\<close>, where \<open>d\<close> is
  \<open>uniform_pm\<close> of the next draw and lies in \<open>[-0.1, 0.1)\<close>, and keeps its name and
  mutation rate; any other gene is copied. The names, their order and their number are
  those of the input, and when the values of the input lie in \<open>[0, 1]\<close>, as the data
  model has them, so do the values of the result.
\<close>

theorem mutate_contract:
  assumes "dna_ok genes"
  shows "fst (mutate genes r) = mutate_spec genes r
       \<and> map_keys (fst (mutate genes r)) = map_keys genes
       \<and> length (fst (mutate genes r)) = length genes
       \<and> dna_ok (fst (mutate genes r))
       \<and> (values_in_unit genes \<longrightarrow> values_in_unit (fst (mutate genes r)))
       \<and> (unit_draws r \<longrightarrow> (\<forall>n. - 0.1 \<le> uniform_pm (r n) \<and> uniform_pm (r n) < 0.1))"
proof -
  have eq: "fst (mutate genes r) = mutate_spec genes r"
    by (rule mutate_refines [OF assms])
  have keys: "map fst (mutate_spec genes r) = map fst genes"
    by (rule mutate_spec_keys)
  have len: "length (mutate_spec genes r) = length genes"
    using arg_cong [OF keys, of length] by simp
  have ok: "dna_ok (mutate_spec genes r)"
    using assms mutate_spec_names [of genes r] by (simp add: dna_ok_def keys)
  have draws: "unit_draws r \<longrightarrow> (\<forall>n. - 0.1 \<le> uniform_pm (r n) \<and> uniform_pm (r n) < 0.1)"
    using uniform_pm_range by (auto simp: unit_draws_def)
  show ?thesis
    using keys len ok draws mutate_spec_values [of genes r]
    by (simp add: eq map_keys_def)
qed

theorem mutate_contract_witness:
  "dna_ok dna_A \<and> values_in_unit dna_A \<and> unit_draws (draws_const (3/4))
   \<and> fst (mutate dna_A (draws_const (3/4))) = [gene ''size'' 0.5 0.05, gene ''speed'' 1 1]
   \<and> map_keys (fst (mutate dna_A (draws_const (3/4)))) = [''size'', ''speed'']
   \<and> values_in_unit (fst (mutate dna_A (draws_const (3/4))))
   \<and> uniform_pm (draws_const (3/4) 1) = 0.05"
proof -
  have ok: "dna_ok dna_A"
    by (simp add: dna_ok_def dna_A_def gene_def)
  have vals: "values_in_unit dna_A"
    by (simp add: values_in_unit_def dna_A_def gene_def)
  have draws: "unit_draws (draws_const (3/4))"
    by (simp add: unit_draws_def draws_const_def)
  have spec: "mutate_spec dna_A (draws_const (3/4)) = [gene ''size'' 0.5 0.05, gene ''speed'' 1 1]"
    by (simp add: dna_A_def gene_def draws_const_def rng_tail_def clamp01_def uniform_pm_def)
  have u: "uniform_pm (draws_const (3/4) 1) = 0.05"
    by (simp add: uniform_pm_def draws_const_def)
  show ?thesis
    using mutate_contract [OF ok, of "draws_const (3/4)"] ok vals draws spec u
    by (simp add: map_keys_def gene_def values_in_unit_def)
qed

subsection \<open>\<open>combine\<close>\<close>

lemma allGeneNames_eq:
  assumes "distinct (map fst a)" "distinct (map fst b)"
  shows "allGeneNames a b = map fst a @ filter (\<lambda>k. k \<notin> fst ` set a) (map fst b)"
proof -
  have "foldl (\<lambda>s x. set_add x s) [] (map fst a) = map fst a"
    using set_add_foldl_distinct [OF assms(1), of "[]"] by simp
  then show ?thesis
    using set_add_foldl_distinct [OF assms(2), of "map fst a"]
    by (simp add: allGeneNames_def new_Set_def map_keys_def)
qed

lemma dna_ok_name: "dna_ok a \<Longrightarrow> map_of a n = Some g \<Longrightarrow> name g = n"
  by (auto simp: dna_ok_def list_all_iff dest!: map_of_SomeD)

lemma inherit_name: "name g1 = n \<Longrightarrow> name g2 = n \<Longrightarrow> name (inherit t n g1 g2) = n"
  by (simp add: inherit_def)

lemma combine_name_step:
  assumes "dna_ok a" "dna_ok b" "n \<notin> fst ` set acc"
  shows "combine_name a b n acc r =
           (acc @ combine_direct a b [n] r,
            if map_of a n \<noteq> None \<and> map_of b n \<noteq> None then rng_tail r else r)"
proof (cases "map_of a n")
  case None
  then show ?thesis
    using assms dna_ok_name [OF assms(2)]
    by (cases "map_of b n") (auto simp: combine_name_def getGene_def addGene_def map_set_fresh)
next
  case (Some g1)
  then have n1: "name g1 = n" using dna_ok_name [OF assms(1)] by simp
  show ?thesis
  proof (cases "map_of b n")
    case None
    then show ?thesis
      using Some n1 assms(3)
      by (simp add: combine_name_def getGene_def addGene_def map_set_fresh)
  next
    case g2: (Some g2)
    then have n2: "name g2 = n" using dna_ok_name [OF assms(2)] by simp
    show ?thesis
      using Some g2 n1 n2 assms(3)
      by (simp add: combine_name_def getGene_def addGene_def map_set_fresh inherit_def Let_def)
  qed
qed

lemma combine_direct_keys_subset: "fst ` set (combine_direct a b ns r) \<subseteq> set ns"
  by (induction ns arbitrary: r) (auto split: option.splits)

lemma combine_direct_Cons:
  "combine_direct a b (n # ns) r =
     combine_direct a b [n] r
       @ combine_direct a b ns (if map_of a n \<noteq> None \<and> map_of b n \<noteq> None then rng_tail r else r)"
  by (auto split: option.splits)

lemma combine_loop_direct:
  assumes "dna_ok a" "dna_ok b"
  shows "distinct ns \<Longrightarrow> set ns \<inter> fst ` set acc = {} \<Longrightarrow>
         fst (combine_loop a b ns acc r) = acc @ combine_direct a b ns r"
proof (induction ns arbitrary: acc r)
  case Nil
  then show ?case by simp
next
  case (Cons n ns)
  let ?r' = "if map_of a n \<noteq> None \<and> map_of b n \<noteq> None then rng_tail r else r"
  let ?acc' = "acc @ combine_direct a b [n] r"
  from Cons.prems have fresh: "n \<notin> fst ` set acc" and d: "distinct ns" and nn: "n \<notin> set ns"
    by auto
  have step: "combine_name a b n acc r = (?acc', ?r')"
    by (rule combine_name_step [OF assms fresh])
  have "fst ` set (combine_direct a b [n] r) \<subseteq> {n}"
    using combine_direct_keys_subset [of a b "[n]" r] by simp
  with Cons.prems nn have disj: "set ns \<inter> fst ` set ?acc' = {}" by (auto simp: image_Un)
  have "fst (combine_loop a b (n # ns) acc r) = fst (combine_loop a b ns ?acc' ?r')"
    by (simp add: step)
  also have "\<dots> = ?acc' @ combine_direct a b ns ?r'"
    by (rule Cons.IH [OF d disj])
  also have "\<dots> = acc @ combine_direct a b (n # ns) r"
    by (simp only: combine_direct_Cons [of a b n ns r] append_assoc)
  finally show ?case .
qed

lemma combine_direct_keys:
  "\<forall>n \<in> set ns. map_of a n \<noteq> None \<or> map_of b n \<noteq> None \<Longrightarrow>
   map fst (combine_direct a b ns r) = ns"
  by (induction ns arbitrary: r) (auto split: option.splits)

lemma combine_direct_names:
  "dna_ok a \<Longrightarrow> dna_ok b \<Longrightarrow>
   list_all (\<lambda>kv. name (snd kv) = fst kv) (combine_direct a b ns r)"
  by (induction ns arbitrary: r) (auto split: option.splits simp: dna_ok_name inherit_name)

lemma combine_direct_lookup:
  "distinct ns \<Longrightarrow> n \<in> set ns \<Longrightarrow>
   map_of (combine_direct a b ns r) n =
     (case (map_of a n, map_of b n) of
        (Some g1, Some g2) \<Rightarrow>
          Some (inherit (r (length (filter (common a b) (takeWhile (\<lambda>k. k \<noteq> n) ns)))) n g1 g2)
      | (Some g1, None) \<Rightarrow> Some g1
      | (None, Some g2) \<Rightarrow> Some g2
      | (None, None) \<Rightarrow> None)"
proof (induction ns arbitrary: r)
  case Nil
  then show ?case by simp
next
  case (Cons m ns)
  show ?case
  proof (cases "m = n")
    case True
    with Cons.prems have "n \<notin> set ns" by simp
    then have "map_of (combine_direct a b ns r) n = None"
      using combine_direct_keys_subset [of a b ns r] by (auto simp: map_of_eq_None_iff)
    then show ?thesis using True by (auto split: option.splits)
  next
    case False
    with Cons.prems have d: "distinct ns" and n: "n \<in> set ns" by auto
    have absent: "map_of (combine_direct a b [m] r) n = None"
      using False combine_direct_keys_subset [of a b "[m]" r]
      by (auto simp: map_of_eq_None_iff)
    let ?r' = "if map_of a m \<noteq> None \<and> map_of b m \<noteq> None then rng_tail r else r"
    have "map_of (combine_direct a b (m # ns) r) n = map_of (combine_direct a b ns ?r') n"
      using absent by (simp only: combine_direct_Cons [of a b m ns r] map_of_append map_add_def)
        (simp split: option.splits)
    also note Cons.IH [OF d n, of ?r']
    finally show ?thesis
      using False by (auto simp: common_def rng_tail_def split: option.splits)
  qed
qed

lemma combine_direct_eq:
  assumes "dna_ok a" "dna_ok b"
  shows "fst (combine a b r) =
           combine_direct a b (map fst a @ filter (\<lambda>k. k \<notin> fst ` set a) (map fst b)) r"
proof -
  let ?ns = "map fst a @ filter (\<lambda>k. k \<notin> fst ` set a) (map fst b)"
  from assms have da: "distinct (map fst a)" and db: "distinct (map fst b)"
    by (simp_all add: dna_ok_def)
  have names: "allGeneNames a b = ?ns" by (rule allGeneNames_eq [OF da db])
  have d: "distinct ?ns" using da db by auto
  show ?thesis
    using combine_loop_direct [OF assms d, of "[]" r] by (simp add: combine_def names)
qed

lemma draw_index_eq:
  assumes "n \<in> fst ` set a"
  shows "length (filter (common a b)
           (takeWhile (\<lambda>k. k \<noteq> n) (map fst a @ filter (\<lambda>k. k \<notin> fst ` set a) (map fst b))))
         = draw_index a b n"
proof -
  have tw: "takeWhile (\<lambda>k. k \<noteq> n) (map fst a @ filter (\<lambda>k. k \<notin> fst ` set a) (map fst b))
            = takeWhile (\<lambda>k. k \<noteq> n) (map fst a)"
    using assms by (intro takeWhile_append1 [of n]) auto
  have "filter (common a b) (takeWhile (\<lambda>k. k \<noteq> n) (map fst a))
        = filter (\<lambda>k. getGene k b \<noteq> None) (takeWhile (\<lambda>k. k \<noteq> n) (map fst a))"
  proof (rule filter_cong [OF refl])
    fix k assume "k \<in> set (takeWhile (\<lambda>k. k \<noteq> n) (map fst a))"
    then have "k \<in> set (map fst a)" by (rule set_takeWhileD [THEN conjunct1])
    then have "map_of a k \<noteq> None" by (simp add: map_of_eq_None_iff)
    then show "common a b k = (getGene k b \<noteq> None)" by (simp add: common_def getGene_def)
  qed
  then show ?thesis by (simp add: tw draw_index_def map_keys_def)
qed

text \<open>
  C5. For two genomes (objects of class \<open>DNA\<close>), the gene names of
  \<open>combine dna1 dna2\<close> are the union of the parents' names, each once and keyed by
  its name; a gene that only one parent has is copied; for a gene that both have, one
  draw \<open>t\<close> decides: below 0.4 the first parent's gene, below 0.8 the second parent's,
  otherwise a gene with the averages of the two values and of the two mutation rates.
  The draw is the one at position \<open>draw_index dna1 dna2 nm\<close> of the stream the call
  receives: each gene that both parents have consumes one draw, in the order of the
  first parent's genes.
\<close>

theorem combine_contract:
  assumes "dna_ok dna1" and "dna_ok dna2"
  shows "set (map_keys (fst (combine dna1 dna2 r))) = set (map_keys dna1) \<union> set (map_keys dna2)
       \<and> dna_ok (fst (combine dna1 dna2 r))
       \<and> (\<forall>nm gene1. getGene nm dna1 = Some gene1 \<and> getGene nm dna2 = None
            \<longrightarrow> getGene nm (fst (combine dna1 dna2 r)) = Some gene1)
       \<and> (\<forall>nm gene2. getGene nm dna1 = None \<and> getGene nm dna2 = Some gene2
            \<longrightarrow> getGene nm (fst (combine dna1 dna2 r)) = Some gene2)
       \<and> (\<forall>nm gene1 gene2. getGene nm dna1 = Some gene1 \<and> getGene nm dna2 = Some gene2
            \<longrightarrow> getGene nm (fst (combine dna1 dna2 r)) =
                  Some (let t = r (draw_index dna1 dna2 nm) in
                        if t < 0.4 then gene1
                        else if t < 0.8 then gene2
                        else \<lparr>name = nm,
                              gvalue = (gvalue gene1 + gvalue gene2) / 2,
                              mutationRate = (mutationRate gene1 + mutationRate gene2) / 2\<rparr>))"
proof -
  let ?ns = "map fst dna1 @ filter (\<lambda>k. k \<notin> fst ` set dna1) (map fst dna2)"
  let ?c = "fst (combine dna1 dna2 r)"
  from assms have d1: "distinct (map fst dna1)" and d2: "distinct (map fst dna2)"
    by (simp_all add: dna_ok_def)
  have c: "?c = combine_direct dna1 dna2 ?ns r"
    by (rule combine_direct_eq [OF assms])
  have d: "distinct ?ns" using d1 d2 by auto
  have "\<forall>n \<in> set ?ns. map_of dna1 n \<noteq> None \<or> map_of dna2 n \<noteq> None"
    by (auto simp: map_of_eq_None_iff)
  then have keys: "map fst ?c = ?ns"
    unfolding c by (rule combine_direct_keys)
  have union: "set (map_keys ?c) = set (map_keys dna1) \<union> set (map_keys dna2)"
    unfolding map_keys_def keys by auto
  have ok: "dna_ok ?c"
    using d keys combine_direct_names [OF assms, of ?ns r] by (simp add: dna_ok_def c)
  have look: "map_of ?c n =
      (case (map_of dna1 n, map_of dna2 n) of
         (Some g1, Some g2) \<Rightarrow>
           Some (inherit (r (length (filter (common dna1 dna2) (takeWhile (\<lambda>k. k \<noteq> n) ?ns)))) n g1 g2)
       | (Some g1, None) \<Rightarrow> Some g1
       | (None, Some g2) \<Rightarrow> Some g2
       | (None, None) \<Rightarrow> None)" if "n \<in> set ?ns" for n
    unfolding c by (rule combine_direct_lookup [OF d that])
  have in1: "n \<in> set ?ns" if "map_of dna1 n = Some g" for n g
    using that by (auto dest: map_of_SomeD intro: rev_image_eqI)
  have in2: "n \<in> set ?ns" if "map_of dna2 n = Some g" for n g
  proof -
    from that have "n \<in> fst ` set dna2" by (auto dest: map_of_SomeD intro: rev_image_eqI)
    then show ?thesis by auto
  qed
  have only1: "getGene nm ?c = Some gene1"
    if "getGene nm dna1 = Some gene1 \<and> getGene nm dna2 = None" for nm gene1
    using that look [OF in1, of nm gene1] by (simp add: getGene_def)
  have only2: "getGene nm ?c = Some gene2"
    if "getGene nm dna1 = None \<and> getGene nm dna2 = Some gene2" for nm gene2
    using that look [OF in2, of nm gene2] by (simp add: getGene_def)
  have both: "getGene nm ?c =
                Some (let t = r (draw_index dna1 dna2 nm) in
                      if t < 0.4 then gene1
                      else if t < 0.8 then gene2
                      else \<lparr>name = nm,
                            gvalue = (gvalue gene1 + gvalue gene2) / 2,
                            mutationRate = (mutationRate gene1 + mutationRate gene2) / 2\<rparr>)"
    if "getGene nm dna1 = Some gene1 \<and> getGene nm dna2 = Some gene2" for nm gene1 gene2
  proof -
    from that have g1: "map_of dna1 nm = Some gene1" and g2: "map_of dna2 nm = Some gene2"
      by (simp_all add: getGene_def)
    from g1 have mem: "nm \<in> fst ` set dna1" by (auto dest: map_of_SomeD intro: rev_image_eqI)
    show ?thesis
      using look [OF in1, OF g1] g1 g2 draw_index_eq [OF mem, of dna2]
      by (simp add: getGene_def inherit_def Let_def)
  qed
  show ?thesis using union ok only1 only2 both by blast
qed

theorem combine_contract_witness:
  "dna_ok dna_A \<and> dna_ok dna_B
   \<and> set (map_keys (fst (combine dna_A dna_B (draws_const 0.9)))) = {''size'', ''speed'', ''lifespan''}
   \<and> getGene ''size'' (fst (combine dna_A dna_B (draws_const 0.9))) = Some (snd (gene ''size'' 0.5 0.05))
   \<and> getGene ''lifespan'' (fst (combine dna_A dna_B (draws_const 0.9)))
       = Some (snd (gene ''lifespan'' 0.6 0.05))
   \<and> getGene ''speed'' (fst (combine dna_A dna_B (draws_const 0.1))) = Some (snd (gene ''speed'' 0.98 1))
   \<and> getGene ''speed'' (fst (combine dna_A dna_B (draws_const 0.5))) = Some (snd (gene ''speed'' 0.2 0.5))
   \<and> getGene ''speed'' (fst (combine dna_A dna_B (draws_const 0.9))) = Some (snd (gene ''speed'' 0.59 0.75))"
proof -
  have okA: "dna_ok dna_A" by (simp add: dna_ok_def dna_A_def gene_def)
  have okB: "dna_ok dna_B" by (simp add: dna_ok_def dna_B_def gene_def)
  note T = combine_contract [OF okA okB]
  have sizeA: "getGene ''size'' dna_A = Some (snd (gene ''size'' 0.5 0.05))"
    and sizeB: "getGene ''size'' dna_B = None"
    and lifeA: "getGene ''lifespan'' dna_A = None"
    and lifeB: "getGene ''lifespan'' dna_B = Some (snd (gene ''lifespan'' 0.6 0.05))"
    and speedA: "getGene ''speed'' dna_A = Some (snd (gene ''speed'' 0.98 1))"
    and speedB: "getGene ''speed'' dna_B = Some (snd (gene ''speed'' 0.2 0.5))"
    by (simp_all add: getGene_def dna_A_def dna_B_def gene_def)
  have keys: "set (map_keys (fst (combine dna_A dna_B (draws_const 0.9)))) = {''size'', ''speed'', ''lifespan''}"
    using T [of "draws_const 0.9"] by (auto simp: map_keys_def dna_A_def dna_B_def gene_def)
  have size: "getGene ''size'' (fst (combine dna_A dna_B (draws_const 0.9))) = Some (snd (gene ''size'' 0.5 0.05))"
    using T [of "draws_const 0.9"] sizeA sizeB by blast
  have life: "getGene ''lifespan'' (fst (combine dna_A dna_B (draws_const 0.9))) = Some (snd (gene ''lifespan'' 0.6 0.05))"
    using T [of "draws_const 0.9"] lifeA lifeB by blast
  have speed: "getGene ''speed'' (fst (combine dna_A dna_B (draws_const c))) =
      Some (let t = draws_const c (draw_index dna_A dna_B ''speed'') in
            if t < 0.4 then snd (gene ''speed'' 0.98 1)
            else if t < 0.8 then snd (gene ''speed'' 0.2 0.5)
            else \<lparr>name = ''speed'',
                  gvalue = (gvalue (snd (gene ''speed'' 0.98 1)) + gvalue (snd (gene ''speed'' 0.2 0.5))) / 2,
                  mutationRate = (mutationRate (snd (gene ''speed'' 0.98 1))
                                  + mutationRate (snd (gene ''speed'' 0.2 0.5))) / 2\<rparr>)" for c
    using T [of "draws_const c"] speedA speedB by blast
  show ?thesis
    using okA okB keys size life speed [of "0.1"] speed [of "0.5"] speed [of "0.9"]
    by (simp add: draws_const_def gene_def)
qed

section \<open>Properties: the world\<close>

lemma new_World_fields:
  "animals (fst (new_World w h r)) = []"
  "maxPopulation (fst (new_World w h r)) = \<lfloor>real_of_int (w * h) * 0.3\<rfloor>"
  "populationPressure (fst (new_World w h r)) = 0"
  "width (fst (new_World w h r)) = w"
  "height (fst (new_World w h r)) = h"
  by (simp_all add: new_World_def split: prod.splits)

lemma new_row_length: "length (fst (new_row n r)) = n"
proof (induction n arbitrary: r)
  case 0
  then show ?case by simp
next
  case (Suc n)
  obtain row r' where row: "new_row n (rng_tail r) = (row, r')" by (cases "new_row n (rng_tail r)")
  then show ?case using Suc [of "rng_tail r"] by simp
qed

lemma new_grid_shape:
  "length (fst (new_grid h w r)) = h \<and> list_all (\<lambda>row. length row = w) (fst (new_grid h w r))"
proof (induction h arbitrary: r)
  case 0
  then show ?case by simp
next
  case (Suc h)
  obtain row r' where row: "new_row w r = (row, r')" by (cases "new_row w r")
  obtain rows r'' where rows: "new_grid h w r' = (rows, r'')" by (cases "new_grid h w r'")
  have "length row = w" using new_row_length [of w r] by (simp add: row)
  then show ?case using Suc [of r'] by (simp add: row rows)
qed

lemma new_World_grid_ok:
  assumes "0 \<le> w" "0 \<le> h"
  shows "grid_ok (fst (new_World w h r))"
proof -
  obtain g r' where g: "new_grid (nat h) (nat w) r = (g, r')" by (cases "new_grid (nat h) (nat w) r")
  have "length g = nat h \<and> list_all (\<lambda>row. length row = nat w) g"
    using new_grid_shape [of "nat h" "nat w" r] by (simp add: g)
  then show ?thesis
    using assms by (auto simp: grid_ok_def new_World_def g list_all_iff)
qed

lemma regrow_grid_ok: "grid_ok w \<Longrightarrow> grid_ok (regrow w)"
  by (simp add: grid_ok_def regrow_def list_all_iff)

lemma addAnimal_full:
  "int (length (animals w)) \<ge> maxPopulation w \<Longrightarrow>
   fst (addAnimal a w) = False \<and> animals (snd (addAnimal a w)) = animals w
   \<and> maxPopulation (snd (addAnimal a w)) = maxPopulation w"
  by (simp add: addAnimal_def)

lemma addAnimal_room:
  "int (length (animals w)) < maxPopulation w \<Longrightarrow>
   fst (addAnimal a w) = True
   \<and> animals (snd (addAnimal a w)) = map_set (animal_id a) a (animals w)
   \<and> maxPopulation (snd (addAnimal a w)) = maxPopulation w
   \<and> populationPressure (snd (addAnimal a w)) = pressure_formula (snd (addAnimal a w))"
  by (simp add: addAnimal_def Let_def pressure_formula_def)

lemma addAnimals_Cons:
  "addAnimals (a # as) w =
     (fst (addAnimal a w) # fst (addAnimals as (snd (addAnimal a w))),
      snd (addAnimals as (snd (addAnimal a w))))"
  by (simp split: prod.splits)

lemma addAnimals_distinct:
  "distinct (map fst (animals w) @ map animal_id as) \<Longrightarrow>
   int (length (animals w) + length as) \<le> maxPopulation w \<Longrightarrow>
   fst (addAnimals as w) = replicate (length as) True
   \<and> map fst (animals (snd (addAnimals as w))) = map fst (animals w) @ map animal_id as
   \<and> maxPopulation (snd (addAnimals as w)) = maxPopulation w"
proof (induction as arbitrary: w)
  case Nil
  then show ?case by simp
next
  case (Cons a as)
  let ?w' = "snd (addAnimal a w)"
  from Cons.prems have room: "int (length (animals w)) < maxPopulation w"
    and fresh: "animal_id a \<notin> fst ` set (animals w)" by auto
  have step: "fst (addAnimal a w) = True"
    and reg: "animals ?w' = animals w @ [(animal_id a, a)]"
    and cap: "maxPopulation ?w' = maxPopulation w"
    using addAnimal_room [OF room, of a] fresh by (simp_all add: map_set_fresh)
  have d: "distinct (map fst (animals ?w') @ map animal_id as)"
    using Cons.prems(1) by (simp add: reg)
  have n: "int (length (animals ?w') + length as) \<le> maxPopulation ?w'"
    using Cons.prems(2) by (simp add: reg cap)
  show ?case
    using Cons.IH [OF d n] step
    by (simp add: addAnimals_Cons reg cap del: addAnimals.simps(2))
qed

text \<open>
  C7. \<open>addAnimal\<close> on a registry whose size has reached \<open>maxPopulation\<close> returns
  false and leaves the registry as it is; otherwise it returns true, stores the animal
  under its id and sets \<open>populationPressure\<close> to
  \<open>min 10 (floor (size / maxPopulation * 10))\<close> for the new size. A new 10 by 10
  world has \<open>maxPopulation = 30\<close>; after the calls for 30 animals of pairwise
  different ids, which all return true, the call for a 31st returns false and the
  registry still holds 30.
\<close>

theorem addAnimal_contract:
  "(int (length (animals w)) \<ge> maxPopulation w \<longrightarrow>
      fst (addAnimal a w) = False
      \<and> animals (snd (addAnimal a w)) = animals w
      \<and> length (animals (snd (addAnimal a w))) = length (animals w))
   \<and> (int (length (animals w)) < maxPopulation w \<longrightarrow>
      fst (addAnimal a w) = True
      \<and> getAnimal (animal_id a) (snd (addAnimal a w)) = Some a
      \<and> animals (snd (addAnimal a w)) = map_set (animal_id a) a (animals w)
      \<and> populationPressure (snd (addAnimal a w)) =
          min 10 \<lfloor>(real (length (animals (snd (addAnimal a w)))) / real_of_int (maxPopulation w)) * 10\<rfloor>)
   \<and> (length as = 30 \<and> distinct (map animal_id (as @ [b])) \<longrightarrow>
      maxPopulation (fst (new_World 10 10 r)) = 30
      \<and> fst (addAnimals as (fst (new_World 10 10 r))) = replicate 30 True
      \<and> length (animals (snd (addAnimals as (fst (new_World 10 10 r))))) = 30
      \<and> fst (addAnimal b (snd (addAnimals as (fst (new_World 10 10 r))))) = False
      \<and> length (animals (snd (addAnimal b (snd (addAnimals as (fst (new_World 10 10 r))))))) = 30)"
proof (intro conjI impI)
  assume full: "int (length (animals w)) \<ge> maxPopulation w"
  show "fst (addAnimal a w) = False" using addAnimal_full [OF full] by simp
  show "animals (snd (addAnimal a w)) = animals w" using addAnimal_full [OF full] by simp
  then show "length (animals (snd (addAnimal a w))) = length (animals w)" by simp
next
  assume room: "int (length (animals w)) < maxPopulation w"
  show "fst (addAnimal a w) = True" using addAnimal_room [OF room] by simp
  show reg: "animals (snd (addAnimal a w)) = map_set (animal_id a) a (animals w)"
    using addAnimal_room [OF room] by simp
  show "getAnimal (animal_id a) (snd (addAnimal a w)) = Some a"
    by (simp add: getAnimal_def reg map_of_map_set)
  show "populationPressure (snd (addAnimal a w)) =
          min 10 \<lfloor>(real (length (animals (snd (addAnimal a w)))) / real_of_int (maxPopulation w)) * 10\<rfloor>"
    using addAnimal_room [OF room, of a] by (simp add: pressure_formula_def)
next
  let ?w0 = "fst (new_World 10 10 r)"
  let ?w30 = "snd (addAnimals as ?w0)"
  assume h: "length as = 30 \<and> distinct (map animal_id (as @ [b]))"
  show cap0: "maxPopulation ?w0 = 30" by (simp add: new_World_fields)
  have d: "distinct (map fst (animals ?w0) @ map animal_id as)"
    using h by (simp add: new_World_fields)
  have n: "int (length (animals ?w0) + length as) \<le> maxPopulation ?w0"
    using h by (simp add: new_World_fields)
  note run = addAnimals_distinct [OF d n]
  show "fst (addAnimals as ?w0) = replicate 30 True" using run h by simp
  have keys: "map fst (animals ?w30) = map animal_id as"
    using run by (simp add: new_World_fields)
  show len: "length (animals ?w30) = 30"
    using arg_cong [OF keys, of length] h by simp
  have full: "int (length (animals ?w30)) \<ge> maxPopulation ?w30"
    using run len cap0 by simp
  show "fst (addAnimal b ?w30) = False" using addAnimal_full [OF full] by simp
  show "length (animals (snd (addAnimal b ?w30))) = 30"
    using addAnimal_full [OF full, of b] len by simp
qed

lemma animal_named_id: "animal_id (animal_named u) = u"
  by (simp add: animal_named_def new_Animal_def Let_def)

lemma ids31_facts: "length ids31 = 31" "distinct ids31"
  by (simp_all add: ids31_def)

theorem addAnimal_contract_witness:
  "int (length (animals world_1x1)) \<ge> maxPopulation world_1x1
   \<and> fst (addAnimal (animal_named ''a'') world_1x1) = False
   \<and> length (animals (snd (addAnimal (animal_named ''a'') world_1x1))) = 0
   \<and> int (length (animals world_2x5)) < maxPopulation world_2x5
   \<and> fst (addAnimal (animal_named ''a'') world_2x5) = True
   \<and> getAnimal ''a'' (snd (addAnimal (animal_named ''a'') world_2x5)) = Some (animal_named ''a'')
   \<and> populationPressure (snd (addAnimal (animal_named ''a'') world_2x5)) = 3
   \<and> length (map animal_named (butlast ids31)) = 30
   \<and> distinct (map animal_id (map animal_named (butlast ids31) @ [animal_named (last ids31)]))
   \<and> fst (addAnimals (map animal_named (butlast ids31)) (fst (new_World 10 10 (draws_const 0))))
        = replicate 30 True
   \<and> fst (addAnimal (animal_named (last ids31))
          (snd (addAnimals (map animal_named (butlast ids31)) (fst (new_World 10 10 (draws_const 0))))))
        = False"
proof -
  have w1: "animals world_1x1 = []" "maxPopulation world_1x1 = 0"
    by (simp_all add: world_1x1_def new_World_fields)
  have w2: "animals world_2x5 = []" "maxPopulation world_2x5 = 3"
    by (simp_all add: world_2x5_def new_World_fields)
  have full: "int (length (animals world_1x1)) \<ge> maxPopulation world_1x1"
    by (simp add: w1)
  have room: "int (length (animals world_2x5)) < maxPopulation world_2x5"
    by (simp add: w2)
  have len: "length (map animal_named (butlast ids31)) = 30"
    by (simp add: ids31_facts)
  have "map animal_id (map animal_named (butlast ids31) @ [animal_named (last ids31)])
        = butlast ids31 @ [last ids31]"
    by (simp add: animal_named_id comp_def)
  also have "\<dots> = ids31"
    by (rule append_butlast_last_id) (simp add: ids31_def)
  finally have dist: "distinct (map animal_id (map animal_named (butlast ids31) @ [animal_named (last ids31)]))"
    by (simp add: ids31_facts)
  note T1 = addAnimal_contract [of world_1x1 "animal_named ''a''"]
  note T2 = addAnimal_contract [of world_2x5 "animal_named ''a''"]
  note T3 = addAnimal_contract [of _ _ "map animal_named (butlast ids31)" "animal_named (last ids31)"
      "draws_const 0"]
  have p1: "fst (addAnimal (animal_named ''a'') world_1x1) = False
            \<and> length (animals (snd (addAnimal (animal_named ''a'') world_1x1))) = 0"
    using T1 full w1 by simp
  have p2: "fst (addAnimal (animal_named ''a'') world_2x5) = True
            \<and> getAnimal ''a'' (snd (addAnimal (animal_named ''a'') world_2x5)) = Some (animal_named ''a'')
            \<and> populationPressure (snd (addAnimal (animal_named ''a'') world_2x5)) = 3"
    using T2 room w2 by (simp add: animal_named_id)
  have p3: "fst (addAnimals (map animal_named (butlast ids31)) (fst (new_World 10 10 (draws_const 0))))
              = replicate 30 True
            \<and> fst (addAnimal (animal_named (last ids31))
                (snd (addAnimals (map animal_named (butlast ids31)) (fst (new_World 10 10 (draws_const 0))))))
              = False"
    using T3 len dist by blast
  show ?thesis using full room len dist p1 p2 p3 by blast
qed

lemma removeAnimal_frame:
  "populationPressure (removeAnimal i w) = populationPressure w"
  "maxPopulation (removeAnimal i w) = maxPopulation w"
  "grid (removeAnimal i w) = grid w"
  by (simp_all add: removeAnimal_def)

lemma removeAnimals_pressure:
  "populationPressure (removeAnimals ids w) = populationPressure w"
  unfolding removeAnimals_def
  by (induction ids arbitrary: w) (simp_all add: removeAnimal_frame)

text \<open>
  C10. \<open>removeAnimal\<close> leaves \<open>populationPressure\<close> as it was, and so does any run
  of removals; the value that \<open>getPopulationPressure\<close> returns can therefore exceed
  \<open>min 10 (floor (size / maxPopulation * 10))\<close> of the current registry. In a 2 by 5
  world (\<open>maxPopulation = 3\<close>) three insertions raise the pressure to 10; after the
  three animals are removed the registry is empty, the formula gives 0 and the pressure
  is still 10. The next insertion, which succeeds, sets it to \<open>floor (1 / 3 * 10) = 3\<close>.
\<close>

theorem removeAnimal_keeps_pressure:
  "getPopulationPressure (removeAnimal i w) = getPopulationPressure w
   \<and> getPopulationPressure (removeAnimals ids w) = getPopulationPressure w
   \<and> getPopulationPressure
        (snd (addAnimals [animal_named ''a'', animal_named ''b'', animal_named ''c''] world_2x5)) = 10
   \<and> animals (removeAnimals [''a'', ''b'', ''c'']
        (snd (addAnimals [animal_named ''a'', animal_named ''b'', animal_named ''c''] world_2x5))) = []
   \<and> pressure_formula (removeAnimals [''a'', ''b'', ''c'']
        (snd (addAnimals [animal_named ''a'', animal_named ''b'', animal_named ''c''] world_2x5))) = 0
   \<and> getPopulationPressure (removeAnimals [''a'', ''b'', ''c'']
        (snd (addAnimals [animal_named ''a'', animal_named ''b'', animal_named ''c''] world_2x5))) = 10
   \<and> fst (addAnimal (animal_named ''d'') (removeAnimals [''a'', ''b'', ''c'']
        (snd (addAnimals [animal_named ''a'', animal_named ''b'', animal_named ''c''] world_2x5)))) = True
   \<and> getPopulationPressure (snd (addAnimal (animal_named ''d'') (removeAnimals [''a'', ''b'', ''c'']
        (snd (addAnimals [animal_named ''a'', animal_named ''b'', animal_named ''c''] world_2x5))))) = 3"
proof -
  let ?w3 = "snd (addAnimals [animal_named ''a'', animal_named ''b'', animal_named ''c''] world_2x5)"
  have w2: "animals world_2x5 = []" "maxPopulation world_2x5 = 3"
    by (simp_all add: world_2x5_def new_World_fields)
  have reg: "animals ?w3 = [(''a'', animal_named ''a''), (''b'', animal_named ''b''), (''c'', animal_named ''c'')]"
    by (simp add: addAnimals_Cons addAnimal_def Let_def w2 animal_named_id del: addAnimals.simps(2))
  have cap: "maxPopulation ?w3 = 3"
    by (simp add: addAnimals_Cons addAnimal_def Let_def w2 animal_named_id del: addAnimals.simps(2))
  have p3: "populationPressure ?w3 = 10"
    by (simp add: addAnimals_Cons addAnimal_def Let_def w2 animal_named_id del: addAnimals.simps(2))
  have gone: "animals (removeAnimals [''a'', ''b'', ''c''] ?w3) = []"
    by (simp add: removeAnimals_def removeAnimal_def map_delete_def reg del: addAnimals.simps(2))
  have cap': "maxPopulation (removeAnimals [''a'', ''b'', ''c''] ?w3) = 3"
    by (simp add: removeAnimals_def removeAnimal_frame cap del: addAnimals.simps(2))
  have f: "pressure_formula (removeAnimals [''a'', ''b'', ''c''] ?w3) = 0"
    by (simp add: pressure_formula_def gone cap' del: addAnimals.simps(2))
  have room: "int (length (animals (removeAnimals [''a'', ''b'', ''c''] ?w3)))
               < maxPopulation (removeAnimals [''a'', ''b'', ''c''] ?w3)"
    by (simp add: gone cap' del: addAnimals.simps(2))
  have again: "fst (addAnimal (animal_named ''d'') (removeAnimals [''a'', ''b'', ''c''] ?w3)) = True
      \<and> populationPressure (snd (addAnimal (animal_named ''d'') (removeAnimals [''a'', ''b'', ''c''] ?w3))) = 3"
    using addAnimal_room [OF room, of "animal_named ''d''"]
    by (simp add: pressure_formula_def gone cap' del: addAnimals.simps(2))
  show ?thesis
    using p3 gone f again
    by (simp add: getPopulationPressure_def removeAnimal_frame removeAnimals_pressure
        del: addAnimals.simps(2))
qed

section \<open>Properties: the actions of an animal\<close>

text \<open>
  C9. When the animal stands on the grid, \<open>move\<close> puts it one step further in the
  given direction, clamped to the grid, and takes exactly 1 from its energy, also when
  the clamp leaves it where it was; nothing else of the animal changes.
\<close>

theorem move_contract:
  assumes "isPositionValid w (position this)"
  shows "position (fst (move direction w this r)) = clamp_to_grid w (one_step direction (position this))
       \<and> isPositionValid w (position (fst (move direction w this r)))
       \<and> energy (stats (fst (move direction w this r))) = energy (stats this) - 1
       \<and> fst (move direction w this r) =
           this\<lparr>position := clamp_to_grid w (one_step direction (position this)),
                stats := (stats this)\<lparr>energy := energy (stats this) - 1\<rparr>\<rparr>"
proof -
  obtain px py where p: "position this = \<lparr>pos_x = px, pos_y = py\<rparr>"
    by (cases "position this") simp
  from assms p have b: "0 \<le> px" "px < width w" "0 \<le> py" "py < height w"
    by (simp_all add: isPositionValid_def)
  show ?thesis
    using b
    by (cases direction)
      (simp_all add: move_def p Let_def isPositionValid_def getWidth_def getHeight_def
        clamp_to_grid_def one_step_def)
qed

theorem move_contract_witness:
  "isPositionValid world_1x1 (position (grown ''a'' 0 0))
   \<and> position (fst (move north world_1x1 (grown ''a'' 0 0) (draws_const 0))) = \<lparr>pos_x = 0, pos_y = 0\<rparr>
   \<and> energy (stats (fst (move north world_1x1 (grown ''a'' 0 0) (draws_const 0)))) = 49
   \<and> isPositionValid world_2x5 (position (grown ''a'' 0 0))
   \<and> position (fst (move east world_2x5 (grown ''a'' 0 0) (draws_const 0))) = \<lparr>pos_x = 1, pos_y = 0\<rparr>
   \<and> energy (stats (fst (move east world_2x5 (grown ''a'' 0 0) (draws_const 0)))) = 49"
proof -
  have pos: "position (grown ''a'' 0 0) = \<lparr>pos_x = 0, pos_y = 0\<rparr>"
    and en: "energy (stats (grown ''a'' 0 0)) = 50"
    by (simp_all add: grown_def new_Animal_def Let_def)
  have dims: "width world_1x1 = 1" "height world_1x1 = 1" "width world_2x5 = 2" "height world_2x5 = 5"
    by (simp_all add: world_1x1_def world_2x5_def new_World_fields)
  have v1: "isPositionValid world_1x1 (position (grown ''a'' 0 0))"
    by (simp add: isPositionValid_def pos dims)
  have v2: "isPositionValid world_2x5 (position (grown ''a'' 0 0))"
    by (simp add: isPositionValid_def pos dims)
  show ?thesis
    using move_contract [OF v1, of north "draws_const 0"] move_contract [OF v2, of east "draws_const 0"]
      v1 v2
    by (simp add: pos en dims clamp_to_grid_def one_step_def)
qed

lemma floor_draw_range: "0 \<le> u \<Longrightarrow> u < 1 \<Longrightarrow> 0 \<le> \<lfloor>u * 20\<rfloor> \<and> \<lfloor>u * 20\<rfloor> < 20"
  for u :: real
  by (simp add: floor_less_iff)

text \<open>
  C6, amended in the gain. An attacker with energy of at least 20 pays 15 energy
  whatever the outcome. When the draw is below the success chance, it then gains
  \<open>30 + floor (20 * u)\<close> energy for the next draw \<open>u\<close>, a whole number from 30 to
  49 and not \<open>30 + 20 * u\<close>, capped at 100; its hunger goes
  down by 40, not below 0; the target is removed from the registry; the result is true.
  Otherwise nothing else changes and the result is false.
\<close>

theorem attack_contract:
  assumes "energy (stats this) \<ge> 20"
  shows "(r 0 < attack_successChance this target \<longrightarrow>
            returned (attack target w this r) = True
          \<and> energy (stats (this_after (attack target w this r)))
              = min 100 ((energy (stats this) - 15) + (30 + real_of_int \<lfloor>r 1 * 20\<rfloor>))
          \<and> hunger (stats (this_after (attack target w this r))) = max 0 (hunger (stats this) - 40)
          \<and> health (stats (this_after (attack target w this r))) = health (stats this)
          \<and> age (stats (this_after (attack target w this r))) = age (stats this)
          \<and> world_after (attack target w this r) = removeAnimal (animal_id target) w
          \<and> getAnimal (animal_id target) (world_after (attack target w this r)) = None)
       \<and> (\<not> r 0 < attack_successChance this target \<longrightarrow>
            returned (attack target w this r) = False
          \<and> this_after (attack target w this r)
              = this\<lparr>stats := (stats this)\<lparr>energy := energy (stats this) - 15\<rparr>\<rparr>
          \<and> world_after (attack target w this r) = w)
       \<and> (unit_draws r \<longrightarrow> 0 \<le> \<lfloor>r 1 * 20\<rfloor> \<and> \<lfloor>r 1 * 20\<rfloor> < 20)"
proof -
  have gone: "getAnimal (animal_id target) (removeAnimal (animal_id target) w) = None"
    by (simp add: getAnimal_def removeAnimal_def map_of_map_delete)
  have draws: "unit_draws r \<longrightarrow> 0 \<le> \<lfloor>r 1 * 20\<rfloor> \<and> \<lfloor>r 1 * 20\<rfloor> < 20"
    using floor_draw_range [of "r 1"] by (simp add: unit_draws_def)
  show ?thesis
    using assms gone draws
    by (simp add: attack_def Let_def die_def)
qed

theorem attack_contract_witness:
  "energy (stats (grown ''a'' 0 0)) \<ge> 20
   \<and> draws_const 0 0 < attack_successChance (grown ''a'' 0 0) (grown ''b'' 0 1)
   \<and> returned (attack (grown ''b'' 0 1) (snd (addAnimal (grown ''b'' 0 1) world_2x5)) (grown ''a'' 0 0)
        (draws_const 0)) = True
   \<and> energy (stats (this_after (attack (grown ''b'' 0 1) (snd (addAnimal (grown ''b'' 0 1) world_2x5))
        (grown ''a'' 0 0) (draws_const 0)))) = 65
   \<and> hunger (stats (this_after (attack (grown ''b'' 0 1) (snd (addAnimal (grown ''b'' 0 1) world_2x5))
        (grown ''a'' 0 0) (draws_const 0)))) = 20
   \<and> getAnimal ''b'' (snd (addAnimal (grown ''b'' 0 1) world_2x5)) = Some (grown ''b'' 0 1)
   \<and> getAnimal ''b'' (world_after (attack (grown ''b'' 0 1) (snd (addAnimal (grown ''b'' 0 1) world_2x5))
        (grown ''a'' 0 0) (draws_const 0))) = None
   \<and> \<not> draws_const 0.9 0 < attack_successChance (grown ''a'' 0 0) (grown ''b'' 0 1)
   \<and> returned (attack (grown ''b'' 0 1) (snd (addAnimal (grown ''b'' 0 1) world_2x5)) (grown ''a'' 0 0)
        (draws_const 0.9)) = False
   \<and> energy (stats (this_after (attack (grown ''b'' 0 1) (snd (addAnimal (grown ''b'' 0 1) world_2x5))
        (grown ''a'' 0 0) (draws_const 0.9)))) = 35
   \<and> getAnimal ''b'' (world_after (attack (grown ''b'' 0 1) (snd (addAnimal (grown ''b'' 0 1) world_2x5))
        (grown ''a'' 0 0) (draws_const 0.9))) = Some (grown ''b'' 0 1)
   \<and> unit_draws (draws_const 0.9)"
proof -
  let ?w = "snd (addAnimal (grown ''b'' 0 1) world_2x5)"
  have st: "stats (grown ''a'' 0 0) = \<lparr>health = 100, energy = 50, age = 30, hunger = 60\<rparr>"
    and idb: "animal_id (grown ''b'' 0 1) = ''b''"
    by (simp_all add: grown_def new_Animal_def Let_def)
  have en: "energy (stats (grown ''a'' 0 0)) \<ge> 20" by (simp add: st)
  have sc: "attack_successChance (grown ''a'' 0 0) (grown ''b'' 0 1) = 0.42"
    by (simp add: attack_successChance_def grown_def new_Animal_def Let_def getGene_def
        getAllGenes_def map_values_def dna_A_def gene_def)
  have w2: "animals world_2x5 = []" "maxPopulation world_2x5 = 3"
    by (simp_all add: world_2x5_def new_World_fields)
  have room: "int (length (animals world_2x5)) < maxPopulation world_2x5" by (simp add: w2)
  have reg: "getAnimal ''b'' ?w = Some (grown ''b'' 0 1)"
    using addAnimal_room [OF room, of "grown ''b'' 0 1"]
    by (simp add: getAnimal_def map_of_map_set idb)
  have gone: "getAnimal ''b'' (removeAnimal ''b'' ?w) = None"
    by (simp add: getAnimal_def removeAnimal_def map_of_map_delete)
  have hit: "draws_const 0 0 < attack_successChance (grown ''a'' 0 0) (grown ''b'' 0 1)"
    by (simp add: sc draws_const_def)
  have miss: "\<not> draws_const 0.9 0 < attack_successChance (grown ''a'' 0 0) (grown ''b'' 0 1)"
    by (simp add: sc draws_const_def)
  have u: "unit_draws (draws_const 0.9)" by (simp add: unit_draws_def draws_const_def)
  note T = attack_contract [OF en, of _ "grown ''b'' 0 1" ?w]
  have s1: "returned (attack (grown ''b'' 0 1) ?w (grown ''a'' 0 0) (draws_const 0)) = True
      \<and> energy (stats (this_after (attack (grown ''b'' 0 1) ?w (grown ''a'' 0 0) (draws_const 0)))) = 65
      \<and> hunger (stats (this_after (attack (grown ''b'' 0 1) ?w (grown ''a'' 0 0) (draws_const 0)))) = 20
      \<and> getAnimal ''b'' (world_after (attack (grown ''b'' 0 1) ?w (grown ''a'' 0 0) (draws_const 0))) = None"
    using T [of "draws_const 0"] hit gone by (auto simp: st idb draws_const_def)
  have s2: "returned (attack (grown ''b'' 0 1) ?w (grown ''a'' 0 0) (draws_const 0.9)) = False
      \<and> energy (stats (this_after (attack (grown ''b'' 0 1) ?w (grown ''a'' 0 0) (draws_const 0.9)))) = 35
      \<and> getAnimal ''b'' (world_after (attack (grown ''b'' 0 1) ?w (grown ''a'' 0 0) (draws_const 0.9)))
          = Some (grown ''b'' 0 1)"
    using T [of "draws_const 0.9"] miss reg by (auto simp: st)
  show ?thesis using en hit miss reg u s1 s2 by blast
qed

text \<open>
  C6, as the claim words the gain. With energy 20, a first draw of 0 (a success) and a
  second draw \<open>u = 0.99\<close>, the attacker ends with energy
  \<open>20 - 15 + 30 + floor 19.8 = 54\<close>, where \<open>30 + uniform(0, 20)\<close> taken as
  \<open>30 + 20 * u\<close> would give 54.8: the code floors the random part of the gain.
\<close>

theorem attack_gain_counterexample:
  "energy (stats weak_attacker) = 20
   \<and> unit_draws (draws_then 0 0.99)
   \<and> returned (attack (grown ''b'' 0 1) world_2x5 weak_attacker (draws_then 0 0.99)) = True
   \<and> energy (stats (this_after (attack (grown ''b'' 0 1) world_2x5 weak_attacker (draws_then 0 0.99))))
       = 54
   \<and> energy_after_kill_spec (energy (stats weak_attacker)) (draws_then 0 0.99 1) = 54.8
   \<and> energy (stats (this_after (attack (grown ''b'' 0 1) world_2x5 weak_attacker (draws_then 0 0.99))))
       \<noteq> energy_after_kill_spec (energy (stats weak_attacker)) (draws_then 0 0.99 1)"
proof -
  have st: "stats weak_attacker = \<lparr>health = 100, energy = 20, age = 30, hunger = 60\<rparr>"
    by (simp add: weak_attacker_def)
  have sc: "attack_successChance weak_attacker (grown ''b'' 0 1) = 0.42"
    by (simp add: attack_successChance_def weak_attacker_def grown_def new_Animal_def Let_def
        getGene_def getAllGenes_def map_values_def dna_A_def gene_def)
  have u: "unit_draws (draws_then 0 0.99)"
    by (simp add: unit_draws_def draws_then_def)
  have fl: "\<lfloor>(0.99 :: real) * 20\<rfloor> = 19"
    by (simp add: floor_eq_iff)
  have ok: "returned (attack (grown ''b'' 0 1) world_2x5 weak_attacker (draws_then 0 0.99)) = True"
    by (simp add: attack_def Let_def st sc draws_then_def)
  have en: "energy (stats (this_after
              (attack (grown ''b'' 0 1) world_2x5 weak_attacker (draws_then 0 0.99)))) = 54"
    using fl by (simp add: attack_def Let_def st sc draws_then_def)
  have claimed: "energy_after_kill_spec (energy (stats weak_attacker)) (draws_then 0 0.99 1) = 54.8"
    by (simp add: energy_after_kill_spec_def st draws_then_def)
  have e20: "energy (stats weak_attacker) = 20"
    by (simp add: st)
  have differ: "energy (stats (this_after
              (attack (grown ''b'' 0 1) world_2x5 weak_attacker (draws_then 0 0.99))))
       \<noteq> energy_after_kill_spec (energy (stats weak_attacker)) (draws_then 0 0.99 1)"
    unfolding en claimed by simp
  show ?thesis
    using e20 u ok en claimed differ by (intro conjI)
qed

lemma map_set_not_Nil: "map_set k v kvs \<noteq> []"
  by (cases kvs) (auto split: if_splits)

lemma mutate_loop_not_Nil:
  "rest \<noteq> [] \<or> acc \<noteq> [] \<Longrightarrow> fst (mutate_loop rest acc r) \<noteq> []"
proof (induction rest arbitrary: acc r)
  case Nil
  then show ?case by simp
next
  case (Cons kv rest)
  obtain nm g where kv: "kv = (nm, g)" by (cases kv)
  obtain g' r' where step: "mutate_gene nm g r = (g', r')" by (cases "mutate_gene nm g r")
  have "addGene g' acc \<noteq> []" by (simp add: addGene_def map_set_not_Nil)
  then have "fst (mutate_loop rest (addGene g' acc) r') \<noteq> []"
    by (intro Cons.IH) simp
  then show ?case by (simp add: kv step)
qed

lemma mutate_not_Nil: "genes \<noteq> [] \<Longrightarrow> fst (mutate genes r) \<noteq> []"
  by (simp add: mutate_def mutate_loop_not_Nil)

lemma combine_name_not_Nil:
  "acc \<noteq> [] \<or> getGene n a \<noteq> None \<Longrightarrow> fst (combine_name a b n acc r) \<noteq> []"
  by (auto simp: combine_name_def addGene_def map_set_not_Nil Let_def split: option.splits)

lemma combine_loop_not_Nil: "acc \<noteq> [] \<Longrightarrow> fst (combine_loop a b ns acc r) \<noteq> []"
proof (induction ns arbitrary: acc r)
  case Nil
  then show ?case by simp
next
  case (Cons n ns)
  obtain c r' where step: "combine_name a b n acc r = (c, r')" by (cases "combine_name a b n acc r")
  have "c \<noteq> []" using combine_name_not_Nil [of acc n a b r] Cons.prems step by simp
  then show ?case using Cons.IH [of c r'] by (simp add: step)
qed

lemma set_add_foldl_prefix: "\<exists>ys. foldl (\<lambda>s x. set_add x s) acc xs = acc @ ys"
proof (induction xs arbitrary: acc)
  case Nil
  then show ?case by simp
next
  case (Cons x xs)
  obtain ys where "foldl (\<lambda>s x. set_add x s) (set_add x acc) xs = set_add x acc @ ys"
    using Cons.IH [of "set_add x acc"] by blast
  then show ?case by (cases "x \<in> set acc") (auto simp: set_add_def)
qed

lemma combine_not_Nil:
  assumes "a \<noteq> []"
  shows "fst (combine a b r) \<noteq> []"
proof -
  obtain k g rest where a: "a = (k, g) # rest" using assms by (cases a) auto
  obtain ns where names: "allGeneNames a b = k # ns"
    using set_add_foldl_prefix [of "[k]" "map fst rest @ map fst b"]
    by (auto simp: allGeneNames_def new_Set_def map_keys_def a set_add_def)
  obtain c r' where step: "combine_name a b k [] r = (c, r')" by (cases "combine_name a b k [] r")
  have "c \<noteq> []"
    using combine_name_not_Nil [of "[]" k a b r] step by (simp add: a getGene_def)
  then have "fst (combine_loop a b ns c r') \<noteq> []" by (rule combine_loop_not_Nil)
  then show ?thesis by (simp add: combine_def names step)
qed

lemma new_Animal_fields:
  "animal_id (new_Animal sp uuid d p) = uuid"
  "position (new_Animal sp uuid d p) = p"
  "species (new_Animal sp uuid d p) = sp"
  "stats (new_Animal sp uuid d p) = \<lparr>health = 100, energy = 100, age = 0, hunger = 0\<rparr>"
  "d \<noteq> [] \<Longrightarrow> dna (new_Animal sp uuid d p) = d"
  by (simp_all add: new_Animal_def Let_def getAllGenes_def map_values_def)

text \<open>
  C3. \<open>reproduce\<close>, for the caller \<open>this\<close>: when one of the two is not adult or
  has energy below 50, nothing changes and nothing is returned. Otherwise one draw is
  compared with the success chance. Above it the caller loses 10 energy, the world is
  as before, nothing is returned. Else the caller loses 30 energy; the offspring has the
  new id, the position \<open>floor ((x + x') / 2), floor ((y + y') / 2)\<close> and, since the
  caller's genome is not empty, the genome \<open>mutate (combine (dna this) (dna partner))\<close>;
  it is handed to \<open>addAnimal\<close>, whose world is the result's world, and it is returned
  when \<open>addAnimal\<close> accepted it: with a registry at \<open>maxPopulation\<close> the caller
  has lost the 30 energy and nothing is returned. The partner is only read.
\<close>

theorem reproduce_contract:
  "(\<not> eligible this partner \<longrightarrow>
       returned (reproduce uuid partner w this r) = None
     \<and> this_after (reproduce uuid partner w this r) = this
     \<and> world_after (reproduce uuid partner w this r) = w)
   \<and> (eligible this partner \<and> r 0 > reproduce_successChance this w \<longrightarrow>
       returned (reproduce uuid partner w this r) = None
     \<and> this_after (reproduce uuid partner w this r)
         = this\<lparr>stats := (stats this)\<lparr>energy := energy (stats this) - 10\<rparr>\<rparr>
     \<and> world_after (reproduce uuid partner w this r) = w)
   \<and> (eligible this partner \<and> r 0 \<le> reproduce_successChance this w \<longrightarrow>
       (let combined = combine (dna this) (dna partner) (rng_tail r);
            mutated = fst (mutate (fst combined) (snd combined));
            child = createOffspring this uuid mutated (midpoint_floor (position this) (position partner))
        in this_after (reproduce uuid partner w this r)
             = this\<lparr>stats := (stats this)\<lparr>energy := energy (stats this) - 30\<rparr>\<rparr>
         \<and> world_after (reproduce uuid partner w this r) = snd (addAnimal child w)
         \<and> returned (reproduce uuid partner w this r)
             = (if fst (addAnimal child w) then Some child else None)
         \<and> animal_id child = uuid
         \<and> position child
             = \<lparr>pos_x = \<lfloor>real_of_int (pos_x (position this) + pos_x (position partner)) / 2\<rfloor>,
                pos_y = \<lfloor>real_of_int (pos_y (position this) + pos_y (position partner)) / 2\<rfloor>\<rparr>
         \<and> (dna this \<noteq> [] \<longrightarrow> dna child = mutated)
         \<and> (int (length (animals w)) \<ge> maxPopulation w \<longrightarrow>
               returned (reproduce uuid partner w this r) = None
             \<and> animals (world_after (reproduce uuid partner w this r)) = animals w)
         \<and> (int (length (animals w)) < maxPopulation w \<longrightarrow>
               returned (reproduce uuid partner w this r) = Some child
             \<and> getAnimal uuid (world_after (reproduce uuid partner w this r)) = Some child)))"
proof (intro conjI impI)
  assume "\<not> eligible this partner"
  then have *: "\<not> isAdult this \<or> \<not> isAdult partner
                \<or> energy (stats this) < 50 \<or> energy (stats partner) < 50"
    by (auto simp: eligible_def)
  from * show "returned (reproduce uuid partner w this r) = None" by (auto simp: reproduce_def)
  from * show "this_after (reproduce uuid partner w this r) = this" by (auto simp: reproduce_def)
  from * show "world_after (reproduce uuid partner w this r) = w" by (auto simp: reproduce_def)
next
  assume h: "eligible this partner \<and> r 0 > reproduce_successChance this w"
  then have *: "isAdult this" "isAdult partner" "\<not> energy (stats this) < 50"
    "\<not> energy (stats partner) < 50" "r 0 > reproduce_successChance this w"
    by (auto simp: eligible_def)
  show "returned (reproduce uuid partner w this r) = None" using * by (simp add: reproduce_def)
  show "this_after (reproduce uuid partner w this r)
          = this\<lparr>stats := (stats this)\<lparr>energy := energy (stats this) - 10\<rparr>\<rparr>"
    using * by (simp add: reproduce_def)
  show "world_after (reproduce uuid partner w this r) = w" using * by (simp add: reproduce_def)
next
  assume h: "eligible this partner \<and> r 0 \<le> reproduce_successChance this w"
  then have *: "isAdult this" "isAdult partner" "\<not> energy (stats this) < 50"
    "\<not> energy (stats partner) < 50" "\<not> r 0 > reproduce_successChance this w"
    by (auto simp: eligible_def)
  define combined where "combined = combine (dna this) (dna partner) (rng_tail r)"
  define mutated where "mutated = fst (mutate (fst combined) (snd combined))"
  define child where
    "child = createOffspring this uuid mutated (midpoint_floor (position this) (position partner))"
  have res: "reproduce uuid partner w this r =
      \<lparr>returned = (if fst (addAnimal child w) then Some child else None),
       this_after = this\<lparr>stats := (stats this)\<lparr>energy := energy (stats this) - 30\<rparr>\<rparr>,
       world_after = snd (addAnimal child w),
       rng_after = snd (mutate (fst combined) (snd combined))\<rparr>"
    using * by (simp add: reproduce_def Let_def combined_def mutated_def child_def
        createOffspring_def split: prod.splits)
  have cid: "animal_id child = uuid"
    by (simp add: child_def createOffspring_def new_Animal_fields)
  have cpos: "position child
      = \<lparr>pos_x = \<lfloor>real_of_int (pos_x (position this) + pos_x (position partner)) / 2\<rfloor>,
         pos_y = \<lfloor>real_of_int (pos_y (position this) + pos_y (position partner)) / 2\<rfloor>\<rparr>"
    by (simp add: child_def createOffspring_def new_Animal_fields midpoint_floor_def)
  have cdna: "dna this \<noteq> [] \<longrightarrow> dna child = mutated"
  proof
    assume "dna this \<noteq> []"
    then have "fst combined \<noteq> []" unfolding combined_def by (rule combine_not_Nil)
    then have "mutated \<noteq> []" unfolding mutated_def by (rule mutate_not_Nil)
    then show "dna child = mutated"
      by (simp add: child_def createOffspring_def new_Animal_fields)
  qed
  have full: "int (length (animals w)) \<ge> maxPopulation w \<longrightarrow>
               returned (reproduce uuid partner w this r) = None
             \<and> animals (world_after (reproduce uuid partner w this r)) = animals w"
    using addAnimal_full [of w child] by (simp add: res)
  have room: "int (length (animals w)) < maxPopulation w \<longrightarrow>
               returned (reproduce uuid partner w this r) = Some child
             \<and> getAnimal uuid (world_after (reproduce uuid partner w this r)) = Some child"
    using addAnimal_room [of w child] by (simp add: res getAnimal_def map_of_map_set cid)
  show "let combined = combine (dna this) (dna partner) (rng_tail r);
            mutated = fst (mutate (fst combined) (snd combined));
            child = createOffspring this uuid mutated (midpoint_floor (position this) (position partner))
        in this_after (reproduce uuid partner w this r)
             = this\<lparr>stats := (stats this)\<lparr>energy := energy (stats this) - 30\<rparr>\<rparr>
         \<and> world_after (reproduce uuid partner w this r) = snd (addAnimal child w)
         \<and> returned (reproduce uuid partner w this r)
             = (if fst (addAnimal child w) then Some child else None)
         \<and> animal_id child = uuid
         \<and> position child
             = \<lparr>pos_x = \<lfloor>real_of_int (pos_x (position this) + pos_x (position partner)) / 2\<rfloor>,
                pos_y = \<lfloor>real_of_int (pos_y (position this) + pos_y (position partner)) / 2\<rfloor>\<rparr>
         \<and> (dna this \<noteq> [] \<longrightarrow> dna child = mutated)
         \<and> (int (length (animals w)) \<ge> maxPopulation w \<longrightarrow>
               returned (reproduce uuid partner w this r) = None
             \<and> animals (world_after (reproduce uuid partner w this r)) = animals w)
         \<and> (int (length (animals w)) < maxPopulation w \<longrightarrow>
               returned (reproduce uuid partner w this r) = Some child
             \<and> getAnimal uuid (world_after (reproduce uuid partner w this r)) = Some child)"
    unfolding Let_def combined_def [symmetric] mutated_def [symmetric] child_def [symmetric]
    using res cid cpos cdna full room by simp
qed

lemma grown_fields:
  "animal_id (grown u px py) = u"
  "dna (grown u px py) = dna_A"
  "position (grown u px py) = \<lparr>pos_x = px, pos_y = py\<rparr>"
  "stats (grown u px py) = \<lparr>health = 100, energy = 50, age = 30, hunger = 60\<rparr>"
  "species (grown u px py) = Fluffles"
  by (simp_all add: grown_def new_Animal_def Let_def getAllGenes_def map_values_def dna_A_def)

lemma dna_A_ok: "dna_ok dna_A"
  by (simp add: dna_ok_def dna_A_def gene_def)

lemma grown_adult: "isAdult (grown u px py)"
  by (simp add: isAdult_def grown_fields getGene_def dna_A_def gene_def)

lemma grown_chance: "reproduce_successChance (grown u px py) w = max 0.1 (0.5 - real_of_int (populationPressure w) * 0.08)"
  by (simp add: reproduce_successChance_def grown_fields getGene_def dna_A_def gene_def
      getPopulationPressure_def)

theorem reproduce_contract_witness:
  "\<not> eligible (animal_named ''y'') (grown ''b'' 2 4)
   \<and> returned (reproduce ''kid'' (grown ''b'' 2 4) world_2x5 (animal_named ''y'') (draws_const 0.3)) = None
   \<and> this_after (reproduce ''kid'' (grown ''b'' 2 4) world_2x5 (animal_named ''y'') (draws_const 0.3))
       = animal_named ''y''
   \<and> eligible (grown ''a'' 1 2) (grown ''b'' 2 4)
   \<and> draws_const 0.9 0 > reproduce_successChance (grown ''a'' 1 2) world_2x5
   \<and> returned (reproduce ''kid'' (grown ''b'' 2 4) world_2x5 (grown ''a'' 1 2) (draws_const 0.9)) = None
   \<and> energy (stats (this_after
         (reproduce ''kid'' (grown ''b'' 2 4) world_2x5 (grown ''a'' 1 2) (draws_const 0.9)))) = 40
   \<and> draws_const 0.3 0 \<le> reproduce_successChance (grown ''a'' 1 2) world_2x5
   \<and> int (length (animals world_2x5)) < maxPopulation world_2x5
   \<and> map_option animal_id
         (returned (reproduce ''kid'' (grown ''b'' 2 4) world_2x5 (grown ''a'' 1 2) (draws_const 0.3)))
       = Some ''kid''
   \<and> map_option position
         (returned (reproduce ''kid'' (grown ''b'' 2 4) world_2x5 (grown ''a'' 1 2) (draws_const 0.3)))
       = Some \<lparr>pos_x = 1, pos_y = 3\<rparr>
   \<and> map_option dna
         (returned (reproduce ''kid'' (grown ''b'' 2 4) world_2x5 (grown ''a'' 1 2) (draws_const 0.3)))
       = Some [gene ''size'' 0.5 0.05, gene ''speed'' 0.94 1]
   \<and> energy (stats (this_after
         (reproduce ''kid'' (grown ''b'' 2 4) world_2x5 (grown ''a'' 1 2) (draws_const 0.3)))) = 20
   \<and> int (length (animals world_1x1)) \<ge> maxPopulation world_1x1
   \<and> draws_const 0.3 0 \<le> reproduce_successChance (grown ''a'' 1 2) world_1x1
   \<and> returned (reproduce ''kid'' (grown ''b'' 2 4) world_1x1 (grown ''a'' 1 2) (draws_const 0.3)) = None
   \<and> energy (stats (this_after
         (reproduce ''kid'' (grown ''b'' 2 4) world_1x1 (grown ''a'' 1 2) (draws_const 0.3)))) = 20"
proof -
  let ?a = "grown ''a'' 1 2" and ?b = "grown ''b'' 2 4" and ?y = "animal_named ''y''"
  have young: "\<not> eligible ?y ?b"
    by (simp add: eligible_def isAdult_def animal_named_def new_Animal_fields dna_A_def
        getGene_def gene_def)
  have el: "eligible ?a ?b"
    by (simp add: eligible_def grown_adult grown_fields)
  have w1: "animals world_1x1 = []" "maxPopulation world_1x1 = 0" "populationPressure world_1x1 = 0"
    by (simp_all add: world_1x1_def new_World_fields)
  have w2: "animals world_2x5 = []" "maxPopulation world_2x5 = 3" "populationPressure world_2x5 = 0"
    by (simp_all add: world_2x5_def new_World_fields)
  have sc1: "reproduce_successChance ?a world_1x1 = 0.5"
    and sc2: "reproduce_successChance ?a world_2x5 = 0.5"
    by (simp_all add: grown_chance w1 w2)
  have hi: "draws_const 0.9 0 > reproduce_successChance ?a world_2x5"
    and lo2: "draws_const 0.3 0 \<le> reproduce_successChance ?a world_2x5"
    and lo1: "draws_const 0.3 0 \<le> reproduce_successChance ?a world_1x1"
    by (simp_all add: sc1 sc2 draws_const_def)
  have room: "int (length (animals world_2x5)) < maxPopulation world_2x5" by (simp add: w2)
  have full: "int (length (animals world_1x1)) \<ge> maxPopulation world_1x1" by (simp add: w1)
  have tail: "rng_tail (draws_const c) = draws_const c" for c
    by (simp add: rng_tail_def draws_const_def)
  have comb: "fst (combine dna_A dna_A (draws_const 0.3)) = dna_A"
    by (simp add: combine_direct_eq [OF dna_A_ok dna_A_ok])
      (simp add: dna_A_def gene_def inherit_def draws_const_def)
  have mut: "fst (mutate dna_A r') = mutate_spec dna_A r'" for r'
    by (rule mutate_refines [OF dna_A_ok])
  have rest: "snd (combine dna_A dna_A (draws_const 0.3)) = draws_const 0.3"
    by (simp add: combine_def allGeneNames_def new_Set_def set_add_def map_keys_def
        combine_name_def getGene_def addGene_def Let_def dna_A_def gene_def tail)
  have mutated: "fst (mutate (fst (combine dna_A dna_A (draws_const 0.3)))
                    (snd (combine dna_A dna_A (draws_const 0.3))))
                 = [gene ''size'' 0.5 0.05, gene ''speed'' 0.94 1]"
    unfolding comb mut rest
    by (simp add: dna_A_def gene_def rng_tail_def draws_const_def clamp01_def uniform_pm_def)
  have nonempty: "dna ?a \<noteq> []" by (simp add: grown_fields dna_A_def)
  note T1 = reproduce_contract [of ?y ?b "''kid''" world_2x5 "draws_const 0.3"]
  note T2 = reproduce_contract [of ?a ?b "''kid''" world_2x5 "draws_const 0.9"]
  note T3 = reproduce_contract [of ?a ?b "''kid''" world_2x5 "draws_const 0.3"]
  note T4 = reproduce_contract [of ?a ?b "''kid''" world_1x1 "draws_const 0.3"]
  have s1: "returned (reproduce ''kid'' ?b world_2x5 ?y (draws_const 0.3)) = None
            \<and> this_after (reproduce ''kid'' ?b world_2x5 ?y (draws_const 0.3)) = ?y"
    using T1 young by blast
  have s2: "returned (reproduce ''kid'' ?b world_2x5 ?a (draws_const 0.9)) = None
            \<and> energy (stats (this_after (reproduce ''kid'' ?b world_2x5 ?a (draws_const 0.9)))) = 40"
    using T2 el hi by (auto simp: grown_fields)
  let ?c = "createOffspring ?a ''kid'' [gene ''size'' 0.5 0.05, gene ''speed'' 0.94 1]
              (midpoint_floor \<lparr>pos_x = 1, pos_y = 2\<rparr> \<lparr>pos_x = 2, pos_y = 4\<rparr>)"
  note B = T3 [THEN conjunct2, THEN conjunct2, THEN mp, OF conjI [OF el lo2],
      unfolded Let_def tail grown_fields mutated]
  from B room have r3: "returned (reproduce ''kid'' ?b world_2x5 ?a (draws_const 0.3)) = Some ?c"
    by blast
  from B have id3: "animal_id ?c = ''kid''"
    by blast
  from B have pos3: "position ?c
      = \<lparr>pos_x = \<lfloor>real_of_int (pos_x \<lparr>pos_x = 1, pos_y = 2\<rparr> + pos_x \<lparr>pos_x = 2, pos_y = 4\<rparr>) / 2\<rfloor>,
         pos_y = \<lfloor>real_of_int (pos_y \<lparr>pos_x = 1, pos_y = 2\<rparr> + pos_y \<lparr>pos_x = 2, pos_y = 4\<rparr>) / 2\<rfloor>\<rparr>"
    by blast
  from B have "dna_A \<noteq> [] \<longrightarrow> dna ?c = [gene ''size'' 0.5 0.05, gene ''speed'' 0.94 1]"
    by blast
  then have dna3: "dna ?c = [gene ''size'' 0.5 0.05, gene ''speed'' 0.94 1]"
    by (simp add: dna_A_def)
  from B have "this_after (reproduce ''kid'' ?b world_2x5 ?a (draws_const 0.3))
      = ?a\<lparr>stats := \<lparr>health = 100, energy = 50, age = 30, hunger = 60\<rparr>
             \<lparr>energy := energy \<lparr>health = 100, energy = 50, age = 30, hunger = 60\<rparr> - 30\<rparr>\<rparr>"
    by blast
  then have en3: "energy (stats (this_after (reproduce ''kid'' ?b world_2x5 ?a (draws_const 0.3)))) = 20"
    by simp
  have s3: "map_option animal_id (returned (reproduce ''kid'' ?b world_2x5 ?a (draws_const 0.3)))
              = Some ''kid''
            \<and> map_option position (returned (reproduce ''kid'' ?b world_2x5 ?a (draws_const 0.3)))
              = Some \<lparr>pos_x = 1, pos_y = 3\<rparr>
            \<and> map_option dna (returned (reproduce ''kid'' ?b world_2x5 ?a (draws_const 0.3)))
              = Some [gene ''size'' 0.5 0.05, gene ''speed'' 0.94 1]
            \<and> energy (stats (this_after (reproduce ''kid'' ?b world_2x5 ?a (draws_const 0.3)))) = 20"
    using r3 id3 pos3 dna3 en3 by simp
  have s4: "returned (reproduce ''kid'' ?b world_1x1 ?a (draws_const 0.3)) = None
            \<and> energy (stats (this_after (reproduce ''kid'' ?b world_1x1 ?a (draws_const 0.3)))) = 20"
    using T4 el lo1 full by (auto simp: Let_def grown_fields)
  show ?thesis
    using young el hi lo2 lo1 room full s1 s2 s3 s4 by blast
qed

section \<open>Where the code leaves the documented bounds\<close>

text \<open>Where the code clamps, the bounds of the stats are kept: \<open>eat\<close> does.\<close>

lemma eat_keeps_bounds:
  assumes "0 \<le> food"
    and "0 \<le> energy (stats this)" "energy (stats this) \<le> 100"
    and "0 \<le> hunger (stats this)" "hunger (stats this) \<le> 100"
  shows "0 \<le> energy (stats (fst (eat food this r))) \<and> energy (stats (fst (eat food this r))) \<le> 100
       \<and> 0 \<le> hunger (stats (fst (eat food this r))) \<and> hunger (stats (fst (eat food this r))) \<le> 100"
  using assms by (simp add: eat_def Let_def)

lemma world_1x1_grid: "grid world_1x1 = [[\<lparr>tile_type = grass, foodValue = 10\<rparr>]]"
  by (simp add: world_1x1_def new_World_def new_tile_def draws_const_def)

lemma world_1x1_fields:
  "width world_1x1 = 1" "height world_1x1 = 1" "animals world_1x1 = []"
  "populationPressure world_1x1 = 0"
  by (simp_all add: world_1x1_def new_World_fields)

lemma world_grazed_fields:
  "grid world_grazed = [[\<lparr>tile_type = grass, foodValue = 9.95\<rparr>]]"
  "populationPressure world_grazed = 0"
  "animals world_grazed = []"
  by (simp_all add: world_grazed_def consumeFood_def getTile_def isPositionValid_def
      world_1x1_grid Let_def world_1x1_fields)

text \<open>
  C1. Three operations leave the bounds of the data model. An animal with energy 0 that
  moves has energy -1 afterwards: \<open>move\<close> subtracts 1 with no floor at 0. A grass tile
  with food value 9.95 has 10.05 after the regrowth of \<open>World.update\<close>: the loop tests
  \<open>foodValue < 10\<close> and then adds the whole rate. \<open>createStandard\<close> with the
  override \<open>size = 5\<close> builds a gene \<open>size\<close> of value 5: the override is stored as
  it is, and the \<open>minValue\<close> and \<open>maxValue\<close> of the gene's definition are never
  read.
\<close>

theorem bounds_not_kept:
  "energy (stats exhausted) = 0
   \<and> isPositionValid world_1x1 (position exhausted)
   \<and> energy (stats (fst (move north world_1x1 exhausted (draws_const 0)))) = - 1
   \<and> map (map foodValue) (grid world_grazed) = [[9.95]]
   \<and> animals world_grazed = []
   \<and> map (map foodValue) (grid (regrow world_grazed)) = [[10.05]]
   \<and> getGene ''size'' (createStandard (Some [''size'' \<mapsto> 5]))
       = Some \<lparr>name = ''size'', gvalue = 5, mutationRate = 0.05\<rparr>"
proof -
  have e: "energy (stats exhausted) = 0" and p: "position exhausted = \<lparr>pos_x = 0, pos_y = 0\<rparr>"
    by (simp_all add: exhausted_def grown_fields)
  note dims = world_1x1_fields
  have v: "isPositionValid world_1x1 (position exhausted)"
    by (simp add: isPositionValid_def p dims)
  have m: "energy (stats (fst (move north world_1x1 exhausted (draws_const 0)))) = - 1"
    by (simp add: move_def Let_def p e isPositionValid_def dims)
  note none = world_grazed_fields(3)
  have g: "map (map foodValue) (grid (regrow world_grazed)) = [[10.05]]"
    by (simp add: regrow_def regrow_tile_def regrowthRate_def world_grazed_fields)
  have c: "getGene ''size'' (createStandard (Some [''size'' \<mapsto> 5]))
       = Some \<lparr>name = ''size'', gvalue = 5, mutationRate = 0.05\<rparr>"
    by (simp add: createStandard_def STANDARD_GENES_def createStandard_gene_def addGene_def
        getGene_def Let_def)
  show ?thesis using e v m none g c by (simp add: world_grazed_fields)
qed

section \<open>Properties: what the accessors return\<close>

lemma getPosition_fresh:
  assumes "allocated s a"
  shows "live_position (write_position (fst (getPosition a s)) f (snd (getPosition a s))) a
           = live_position s a"
    and "position_at (snd (getPosition a s)) (fst (getPosition a s)) = live_position s a"
  using assms by (simp_all add: allocated_def getPosition_def write_position_def live_position_def)

lemma getStats_fresh:
  assumes "allocated s a"
  shows "live_stats (write_stats (fst (getStats a s)) f (snd (getStats a s))) a = live_stats s a"
    and "stats_at (snd (getStats a s)) (fst (getStats a s)) = live_stats s a"
  using assms by (simp_all add: allocated_def getStats_def write_stats_def live_stats_def)

lemma getDNA_alias:
  "live_dna (call_addGene (fst (getDNA a s)) g (snd (getDNA a s))) a = addGene g (live_dna s a)"
  by (simp add: getDNA_def call_addGene_def live_dna_def)

text \<open>
  C8. The objects that \<open>getPosition\<close> and \<open>getStats\<close> return are new ones: writing
  to them leaves the animal's position and stats as they were (here after
  \<open>pos.x = 7\<close> and \<open>stats.health = 0\<close>). \<open>getDNA\<close> returns the animal's own
  genome object: after \<open>animal.getDNA().addGene({name: 'size', value: 1, mutationRate: 0})\<close>
  the animal's gene \<open>size\<close> has the value 1 where it had 0.5.
\<close>

theorem getDNA_returns_live_genome:
  "allocated store_one animal_one
   \<and> live_position
        (write_position (fst (getPosition animal_one store_one)) (\<lambda>p. p\<lparr>pos_x := 7\<rparr>)
           (snd (getPosition animal_one store_one))) animal_one
       = live_position store_one animal_one
   \<and> live_stats
        (write_stats (fst (getStats animal_one store_one)) (\<lambda>v. v\<lparr>health := 0\<rparr>)
           (snd (getStats animal_one store_one))) animal_one
       = live_stats store_one animal_one
   \<and> getGene ''size'' (live_dna store_one animal_one) = Some (snd (gene ''size'' 0.5 0.05))
   \<and> getGene ''size''
        (live_dna
           (call_addGene (fst (getDNA animal_one store_one)) (snd (gene ''size'' 1 0))
              (snd (getDNA animal_one store_one))) animal_one)
       = Some (snd (gene ''size'' 1 0))
   \<and> live_dna
        (call_addGene (fst (getDNA animal_one store_one)) (snd (gene ''size'' 1 0))
           (snd (getDNA animal_one store_one))) animal_one
       \<noteq> live_dna store_one animal_one"
proof -
  have al: "allocated store_one animal_one"
    by (simp add: allocated_def store_one_def animal_one_def)
  have before: "live_dna store_one animal_one = dna_A"
    by (simp add: live_dna_def store_one_def animal_one_def)
  have after: "live_dna
        (call_addGene (fst (getDNA animal_one store_one)) (snd (gene ''size'' 1 0))
           (snd (getDNA animal_one store_one))) animal_one
      = [gene ''size'' 1 0, gene ''speed'' 0.98 1]"
    by (simp add: getDNA_alias before) (simp add: addGene_def dna_A_def gene_def)
  have differ: "[gene ''size'' 1 0, gene ''speed'' 0.98 1] \<noteq> dna_A"
    by (simp add: dna_A_def gene_def)
  have c1: "live_position
        (write_position (fst (getPosition animal_one store_one)) (\<lambda>p. p\<lparr>pos_x := 7\<rparr>)
           (snd (getPosition animal_one store_one))) animal_one
       = live_position store_one animal_one"
    by (rule getPosition_fresh(1) [OF al])
  have c2: "live_stats
        (write_stats (fst (getStats animal_one store_one)) (\<lambda>v. v\<lparr>health := 0\<rparr>)
           (snd (getStats animal_one store_one))) animal_one
       = live_stats store_one animal_one"
    by (rule getStats_fresh(1) [OF al])
  have c3: "getGene ''size'' (live_dna store_one animal_one) = Some (snd (gene ''size'' 0.5 0.05))"
    unfolding before by (simp add: getGene_def dna_A_def gene_def)
  have c4: "getGene ''size''
        (live_dna
           (call_addGene (fst (getDNA animal_one store_one)) (snd (gene ''size'' 1 0))
              (snd (getDNA animal_one store_one))) animal_one)
       = Some (snd (gene ''size'' 1 0))"
    unfolding after by (simp add: getGene_def gene_def)
  have c5: "live_dna
        (call_addGene (fst (getDNA animal_one store_one)) (snd (gene ''size'' 1 0))
           (snd (getDNA animal_one store_one))) animal_one
       \<noteq> live_dna store_one animal_one"
    unfolding after before by (rule differ)
  show ?thesis
    using al c1 c2 c3 c4 c5 by (intro conjI)
qed

section \<open>Properties: the disease disaster\<close>

lemma disease_animal_keeps:
  "next_addr s \<le> next_addr (fst (disease_animal i a s r))
   \<and> (\<forall>p < next_addr s. stats_at (fst (disease_animal i a s r)) p = stats_at s p)"
  by (simp add: disease_animal_def getStats_def write_stats_def)

lemma disease_keeps_live_stats:
  "next_addr s \<le> next_addr (fst (applyDisasterEffects_disease i as s r))
   \<and> (\<forall>p < next_addr s. stats_at (fst (applyDisasterEffects_disease i as s r)) p = stats_at s p)"
proof (induction as arbitrary: s r)
  case Nil
  then show ?case by simp
next
  case (Cons a as)
  obtain s' r' where step: "disease_animal i a s r = (s', r')" by (cases "disease_animal i a s r")
  have one: "next_addr s \<le> next_addr s' \<and> (\<forall>p < next_addr s. stats_at s' p = stats_at s p)"
    using disease_animal_keeps [of s i a r] by (simp add: step)
  have more: "next_addr s' \<le> next_addr (fst (applyDisasterEffects_disease i as s' r'))
      \<and> (\<forall>p < next_addr s'. stats_at (fst (applyDisasterEffects_disease i as s' r')) p = stats_at s' p)"
    by (rule Cons.IH)
  show ?case using one more by (simp add: step)
qed

text \<open>
  C2. With the disease active at intensity 1 and a draw of 0, below \<open>1 * 0.15\<close>, the
  animal is affected: the object that \<open>getStats\<close> returned, at address 3, has health
  \<open>100 - floor (10 * 1) = 90\<close> afterwards. The animal's own stats still have health
  100: the loss went to the copy.
\<close>

theorem disease_changes_only_the_copy:
  "draws_const 0 0 < 1 * 0.15
   \<and> health (live_stats store_one animal_one) = 100
   \<and> health (stats_at (fst (applyDisasterEffects_disease 1 [animal_one] store_one (draws_const 0))) 3)
       = 90
   \<and> health (live_stats (fst (applyDisasterEffects_disease 1 [animal_one] store_one (draws_const 0)))
        animal_one) = 100"
  by (simp add: disease_animal_def getStats_def write_stats_def live_stats_def store_one_def
      animal_one_def draws_const_def)

end
